theory Spec2Isabelle
  imports Complex_Main "HOL-Library.Sublist"
begin

section \<open>Python values and exceptions\<close>

text \<open>
  The library receives its arguments untyped: the annotations of \<^verbatim>\<open>pilot.py\<close> say
  \<^verbatim>\<open>int | None\<close>, but the code checks \<^verbatim>\<open>isinstance(value, int)\<close> at run time, so
  a numeric argument is modelled as an arbitrary Python value. The values are None, bool,
  int, float, str, tuple and dict (with string keys, as decoded JSON has them). A float is
  represented by the rational number it denotes; rounding, NaN and infinities are not
  modelled. A string is a list of 8-bit characters, so \<^verbatim>\<open>lower\<close> and \<^verbatim>\<open>upper\<close> are
  the ASCII ones. A dict is an association list read with \<open>map_of\<close>.
\<close>

datatype pyval =
    PNone
  | PBool bool
  | PInt int
  | PFloat rat
  | PStr string
  | PTuple "pyval list"
  | PDict "(string \<times> pyval) list"

text \<open>
  The exceptions of \<^verbatim>\<open>exceptions.py\<close> and the built-in ones the modelled code can
  raise. \<open>WizLightTimeOutError\<close> carries the exception it is chained from
  (\<^verbatim>\<open>raise ... from last_exc\<close>).
\<close>

datatype pyerr =
    WizLightInvalidParameter
  | WizLightCommandError
  | WizLightConnectionError string
  | WizLightTimeOutError "pyerr option"
  | TimeoutError string
  | TypeError
  | AttributeError
  | ValueError
  | IndexError
  | KeyError
  | OtherError string

definition then_do :: "pyerr + 'a \<Rightarrow> ('a \<Rightarrow> pyerr + 'b) \<Rightarrow> pyerr + 'b" where
  "then_do m f = (case m of Inl e \<Rightarrow> Inl e | Inr x \<Rightarrow> f x)"

text \<open>Truth value testing, as \<^verbatim>\<open>not x\<close>, \<^verbatim>\<open>x or y\<close> and \<^verbatim>\<open>if x\<close> use it.\<close>

fun truthy :: "pyval \<Rightarrow> bool" where
  "truthy PNone = False"
| "truthy (PBool v) = v"
| "truthy (PInt i) = (i \<noteq> 0)"
| "truthy (PFloat f) = (f \<noteq> 0)"
| "truthy (PStr s) = (s \<noteq> [])"
| "truthy (PTuple xs) = (xs \<noteq> [])"
| "truthy (PDict kvs) = (kvs \<noteq> [])"

definition py_or :: "pyval \<Rightarrow> pyval \<Rightarrow> pyval" where
  "py_or x y = (if truthy x then x else y)"

text \<open>\<^verbatim>\<open>isinstance(v, int)\<close>: bool is a subclass of int.\<close>

fun isinstance_int :: "pyval \<Rightarrow> bool" where
  "isinstance_int (PBool v) = True"
| "isinstance_int (PInt i) = True"
| "isinstance_int v = False"

fun int_of :: "pyval \<Rightarrow> int" where
  "int_of (PBool v) = (if v then 1 else 0)"
| "int_of (PInt i) = i"
| "int_of v = 0"

text \<open>
  The built-in \<^verbatim>\<open>min(x, y)\<close> and \<^verbatim>\<open>max(x, y)\<close> on int instances: the first argument
  is kept unless the second is strictly smaller (greater).
\<close>

definition py_min :: "pyval \<Rightarrow> pyval \<Rightarrow> pyval" where
  "py_min x y = (if int_of y < int_of x then y else x)"

definition py_max :: "pyval \<Rightarrow> pyval \<Rightarrow> pyval" where
  "py_max x y = (if int_of y > int_of x then y else x)"

text \<open>\<^verbatim>\<open>len(v)\<close> and \<^verbatim>\<open>v[i]\<close> for a non-negative literal index.\<close>

fun py_len :: "pyval \<Rightarrow> pyerr + nat" where
  "py_len (PStr s) = Inr (length s)"
| "py_len (PTuple xs) = Inr (length xs)"
| "py_len (PDict kvs) = Inr (length (remdups (map fst kvs)))"
| "py_len v = Inl TypeError"

fun py_getitem :: "pyval \<Rightarrow> nat \<Rightarrow> pyerr + pyval" where
  "py_getitem (PStr s) i = (if i < length s then Inr (PStr [s ! i]) else Inl IndexError)"
| "py_getitem (PTuple xs) i = (if i < length xs then Inr (xs ! i) else Inl IndexError)"
| "py_getitem (PDict kvs) i = Inl KeyError"
| "py_getitem v i = Inl TypeError"

text \<open>\<^verbatim>\<open>str.lower\<close>, \<^verbatim>\<open>str.upper\<close> and \<^verbatim>\<open>str.replace(c, "")\<close> on ASCII strings.\<close>

definition lower_char :: "char \<Rightarrow> char" where
  "lower_char ch = (let n = (of_char ch :: nat) in
     if 65 \<le> n \<and> n \<le> 90 then char_of (n + 32) else ch)"

definition upper_char :: "char \<Rightarrow> char" where
  "upper_char ch = (let n = (of_char ch :: nat) in
     if 97 \<le> n \<and> n \<le> 122 then char_of (n - 32) else ch)"

definition lower :: "string \<Rightarrow> string" where
  "lower s = map lower_char s"

definition upper :: "string \<Rightarrow> string" where
  "upper s = map upper_char s"

definition strip_char :: "char \<Rightarrow> string \<Rightarrow> string" where
  "strip_char ch s = filter (\<lambda>x. x \<noteq> ch) s"

text \<open>\<^verbatim>\<open>d.get(k, default)\<close> on a dict.\<close>

definition dict_get :: "(string \<times> pyval) list \<Rightarrow> string \<Rightarrow> pyval \<Rightarrow> pyval" where
  "dict_get d k dflt = (case map_of d k of None \<Rightarrow> dflt | Some v \<Rightarrow> v)"

section \<open>The scene registry (effects.py)\<close>

definition SCENES :: "(int \<times> string) list" where
  "SCENES = [
    (1, ''Ocean''), (2, ''Romance''), (3, ''Sunset''), (4, ''Party''),
    (5, ''Fireplace''), (6, ''Cozy''), (7, ''Forest''), (8, ''Pastel colors''),
    (9, ''Wake-up''), (10, ''Bedtime''), (11, ''Warm white''), (12, ''Daylight''),
    (13, ''Cool white''), (14, ''Night light''), (15, ''Focus''), (16, ''Relax''),
    (17, ''True colors''), (18, ''TV time''), (19, ''Plantgrowth''), (20, ''Spring''),
    (21, ''Summer''), (22, ''Fall''), (23, ''Deep dive''), (24, ''Jungle''),
    (25, ''Mojito''), (26, ''Club''), (27, ''Christmas''), (28, ''Halloween''),
    (29, ''Candlelight''), (30, ''Golden white''), (31, ''Pulse''), (32, ''Steampunk''),
    (33, ''Diwali''), (34, ''White''), (35, ''Alarm''), (36, ''Snowy sky''),
    (1000, ''Rhythm'')]"

text \<open>
  \<^verbatim>\<open>_NAME_TO_ID = {name.lower(): id_ for id_, name in SCENES.items()}\<close>: a later entry
  of the comprehension overwrites an earlier one with the same key, so the list is read
  from its end.
\<close>

definition NAME_TO_ID :: "string \<Rightarrow> int option" where
  "NAME_TO_ID = map_of (rev (map (\<lambda>(i, n). (lower n, i)) SCENES))"

definition get_id_from_scene_name :: "pyval \<Rightarrow> pyerr + int option" where
  "get_id_from_scene_name nm =
     (case nm of PStr s \<Rightarrow> Inr (NAME_TO_ID (lower s)) | _ \<Rightarrow> Inl AttributeError)"

section \<open>PilotBuilder (pilot.py)\<close>

type_synonym params = "string \<rightharpoonup> pyval"

record pilot_args =
  state :: bool
  brightness :: pyval
  r :: pyval
  g :: pyval
  b :: pyval
  rgbw :: pyval
  rgbww :: pyval
  colortemp :: pyval
  scene :: pyval
  speed :: pyval
  ratio :: pyval
  warm_white :: pyval
  cold_white :: pyval

text \<open>The defaults of the keyword arguments: \<^verbatim>\<open>state=True\<close>, everything else None.\<close>

definition default_args :: pilot_args where
  "default_args = \<lparr>state = True, brightness = PNone, r = PNone, g = PNone, b = PNone,
     rgbw = PNone, rgbww = PNone, colortemp = PNone, scene = PNone, speed = PNone,
     ratio = PNone, warm_white = PNone, cold_white = PNone\<rparr>"

text \<open>\<^verbatim>\<open>_clamp(value, min_val, max_val, name)\<close>; the name is used in the message only.\<close>

definition clamp :: "pyval \<Rightarrow> int \<Rightarrow> int \<Rightarrow> pyerr + pyval" where
  "clamp val min_val max_val =
     (if \<not> isinstance_int val then Inl WizLightInvalidParameter
      else Inr (py_max (PInt min_val) (py_min (PInt max_val) val)))"

text \<open>\<^verbatim>\<open>self._params[k] = self._clamp(v, lo, hi, name)\<close>\<close>

definition put_clamped :: "params \<Rightarrow> string \<Rightarrow> pyval \<Rightarrow> int \<Rightarrow> int \<Rightarrow> pyerr + params" where
  "put_clamped p k v lo hi = then_do (clamp v lo hi) (\<lambda>x. Inr (p(k \<mapsto> x)))"

text \<open>\<^verbatim>\<open>self._params[k] = self._clamp(seq[i], lo, hi, name)\<close>\<close>

definition put_item :: "params \<Rightarrow> string \<Rightarrow> pyval \<Rightarrow> nat \<Rightarrow> int \<Rightarrow> int \<Rightarrow> pyerr + params" where
  "put_item p k sq i lo hi = then_do (py_getitem sq i) (\<lambda>v. put_clamped p k v lo hi)"

definition resolve_scene :: "pyval \<Rightarrow> pyerr + pyval" where
  "resolve_scene sc =
     (if isinstance_int sc then
        (if map_of SCENES (int_of sc) = None then Inl WizLightInvalidParameter else Inr sc)
      else then_do (get_id_from_scene_name sc) (\<lambda>scene_id.
        case scene_id of None \<Rightarrow> Inl WizLightInvalidParameter | Some i \<Rightarrow> Inr (PInt i)))"

definition set_rgbw :: "params \<Rightarrow> pyval \<Rightarrow> pyerr + params" where
  "set_rgbw p t = then_do (py_len t) (\<lambda>n.
     if n < 3 then Inl WizLightInvalidParameter
     else then_do (put_item p ''r'' t 0 0 255) (\<lambda>p1.
          then_do (put_item p1 ''g'' t 1 0 255) (\<lambda>p2.
          then_do (put_item p2 ''b'' t 2 0 255) (\<lambda>p3.
          if n > 3 then put_item p3 ''w'' t 3 0 255 else Inr p3))))"

definition set_rgbww :: "params \<Rightarrow> pyval \<Rightarrow> pyerr + params" where
  "set_rgbww p t = then_do (py_len t) (\<lambda>n.
     if n < 3 then Inl WizLightInvalidParameter
     else then_do (put_item p ''r'' t 0 0 255) (\<lambda>p1.
          then_do (put_item p1 ''g'' t 1 0 255) (\<lambda>p2.
          then_do (put_item p2 ''b'' t 2 0 255) (\<lambda>p3.
          then_do (if n > 3 then put_item p3 ''w'' t 3 0 255 else Inr p3) (\<lambda>p4.
          if n > 4 then put_item p4 ''c'' t 4 0 255 else Inr p4)))))"

text \<open>\<^verbatim>\<open>if v is not None: self._params[k] = self._clamp(v, lo, hi, name)\<close>\<close>

definition put_if_given :: "params \<Rightarrow> string \<Rightarrow> pyval \<Rightarrow> int \<Rightarrow> int \<Rightarrow> pyerr + params" where
  "put_if_given p k v lo hi = (if v \<noteq> PNone then put_clamped p k v lo hi else Inr p)"

text \<open>The \<^verbatim>\<open>if scene ... elif rgbww ... elif colortemp\<close> chain of \<^verbatim>\<open>__init__\<close>.\<close>

definition set_mode :: "pilot_args \<Rightarrow> params \<Rightarrow> pyerr + params" where
  "set_mode a p =
     (if scene a \<noteq> PNone then
        then_do (resolve_scene (scene a)) (\<lambda>scene_id. Inr (p(''sceneId'' \<mapsto> scene_id)))
      else if rgbww a \<noteq> PNone then set_rgbww p (rgbww a)
      else if rgbw a \<noteq> PNone then set_rgbw p (rgbw a)
      else if r a \<noteq> PNone \<or> g a \<noteq> PNone \<or> b a \<noteq> PNone then
        then_do (put_clamped p ''r'' (py_or (r a) (PInt 0)) 0 255) (\<lambda>p1.
        then_do (put_clamped p1 ''g'' (py_or (g a) (PInt 0)) 0 255) (\<lambda>p2.
        then_do (put_clamped p2 ''b'' (py_or (b a) (PInt 0)) 0 255) (\<lambda>p3.
        then_do (put_if_given p3 ''w'' (warm_white a) 0 255) (\<lambda>p4.
        put_if_given p4 ''c'' (cold_white a) 0 255))))
      else if colortemp a \<noteq> PNone then put_clamped p ''temp'' (colortemp a) 1000 10000
      else Inr p)"

text \<open>The brightness, speed and ratio statements that follow the chain.\<close>

definition set_common :: "pilot_args \<Rightarrow> params \<Rightarrow> pyerr + params" where
  "set_common a p =
     then_do (put_if_given p ''dimming'' (brightness a) 10 255) (\<lambda>p1.
     then_do (put_if_given p1 ''speed'' (speed a) 1 200) (\<lambda>p2.
     put_if_given p2 ''ratio'' (ratio a) 0 100))"

text \<open>
  \<^verbatim>\<open>PilotBuilder.__init__\<close> followed by \<^verbatim>\<open>to_dict\<close>: the params mapping of the
  built object, or the exception the constructor raises.
\<close>

definition PilotBuilder :: "pilot_args \<Rightarrow> pyerr + params" where
  "PilotBuilder a =
     (let p = [''state'' \<mapsto> PBool (state a)] in
      if \<not> state a then Inr p
      else then_do (set_mode a p) (set_common a))"

subsection \<open>The mode of a pilot, as the specification describes it\<close>

text \<open>
  The specification names five modes and their priority: scene, rgbww, rgbw, bare r/g/b,
  colortemp. \<open>selected_mode\<close> is the first mode, in that order, whose argument is given;
  \<open>mode_keys\<close> are the mode keys present in a params mapping; \<open>expected_keys\<close> are the
  keys the selected mode alone contributes; \<open>ignore_lower\<close> withdraws every mode argument
  of lower priority than the selected one.
\<close>

datatype mode = SceneMode | RgbwwMode | RgbwMode | RgbMode | TempMode | NoMode

definition selected_mode :: "pilot_args \<Rightarrow> mode" where
  "selected_mode a =
     (if scene a \<noteq> PNone then SceneMode
      else if rgbww a \<noteq> PNone then RgbwwMode
      else if rgbw a \<noteq> PNone then RgbwMode
      else if r a \<noteq> PNone \<or> g a \<noteq> PNone \<or> b a \<noteq> PNone then RgbMode
      else if colortemp a \<noteq> PNone then TempMode
      else NoMode)"

definition mode_keys :: "params \<Rightarrow> string set" where
  "mode_keys p = dom p \<inter> {''sceneId'', ''r'', ''g'', ''b'', ''w'', ''c'', ''temp''}"

definition len_of :: "pyval \<Rightarrow> nat" where
  "len_of v = (case py_len v of Inl e \<Rightarrow> 0 | Inr n \<Rightarrow> n)"

definition expected_keys :: "pilot_args \<Rightarrow> string set" where
  "expected_keys a =
     (case selected_mode a of
        SceneMode \<Rightarrow> {''sceneId''}
      | RgbwwMode \<Rightarrow> {''r'', ''g'', ''b''}
          \<union> (if len_of (rgbww a) > 3 then {''w''} else {})
          \<union> (if len_of (rgbww a) > 4 then {''c''} else {})
      | RgbwMode \<Rightarrow> {''r'', ''g'', ''b''} \<union> (if len_of (rgbw a) > 3 then {''w''} else {})
      | RgbMode \<Rightarrow> {''r'', ''g'', ''b''}
          \<union> (if warm_white a \<noteq> PNone then {''w''} else {})
          \<union> (if cold_white a \<noteq> PNone then {''c''} else {})
      | TempMode \<Rightarrow> {''temp''}
      | NoMode \<Rightarrow> {})"

definition ignore_lower :: "pilot_args \<Rightarrow> pilot_args" where
  "ignore_lower a =
     (case selected_mode a of
        SceneMode \<Rightarrow> a\<lparr>rgbww := PNone, rgbw := PNone, r := PNone, g := PNone, b := PNone,
                      colortemp := PNone\<rparr>
      | RgbwwMode \<Rightarrow> a\<lparr>rgbw := PNone, r := PNone, g := PNone, b := PNone, colortemp := PNone\<rparr>
      | RgbwMode \<Rightarrow> a\<lparr>r := PNone, g := PNone, b := PNone, colortemp := PNone\<rparr>
      | RgbMode \<Rightarrow> a\<lparr>colortemp := PNone\<rparr>
      | TempMode \<Rightarrow> a
      | NoMode \<Rightarrow> a)"

subsection \<open>Clamping, as the specification describes it\<close>

text \<open>
  \<open>clamped lo hi v\<close> is \<open>v\<close> when it lies in the range and the nearer bound otherwise;
  \<open>emits p k lo hi v\<close> says that the params carry, under \<open>k\<close>, the integer \<open>v\<close> clamped
  into the range (a missing bare r/g/b component, None, counts as 0). An integer input is
  one whose numeric arguments, as far as they are given, are ints, and whose selected
  tuple is a tuple of at least three ints; \<open>scene_accepted\<close> says that the scene
  resolves. \<open>common_values\<close> and \<open>mode_values\<close> collect what the builder has to emit
  for brightness, speed and ratio, and for the arguments of the selected mode.
\<close>

definition clamped :: "int \<Rightarrow> int \<Rightarrow> int \<Rightarrow> int" where
  "clamped lo hi v = (if v < lo then lo else if hi < v then hi else v)"

definition emits :: "params \<Rightarrow> string \<Rightarrow> int \<Rightarrow> int \<Rightarrow> pyval \<Rightarrow> bool" where
  "emits p k lo hi v = (p k = Some (PInt (clamped lo hi (int_of v))))"

definition is_PInt :: "pyval \<Rightarrow> bool" where
  "is_PInt v = (case v of PInt i \<Rightarrow> True | _ \<Rightarrow> False)"

definition int_or_none :: "pyval \<Rightarrow> bool" where
  "int_or_none v = (v = PNone \<or> is_PInt v)"

definition int_tuple :: "pyval \<Rightarrow> bool" where
  "int_tuple v = (case v of PTuple xs \<Rightarrow> 3 \<le> length xs \<and> list_all is_PInt xs | _ \<Rightarrow> False)"

definition integer_inputs :: "pilot_args \<Rightarrow> bool" where
  "integer_inputs a =
     (int_or_none (brightness a) \<and> int_or_none (speed a) \<and> int_or_none (ratio a) \<and>
      (case selected_mode a of
         SceneMode \<Rightarrow> True
       | RgbwwMode \<Rightarrow> int_tuple (rgbww a)
       | RgbwMode \<Rightarrow> int_tuple (rgbw a)
       | RgbMode \<Rightarrow> int_or_none (r a) \<and> int_or_none (g a) \<and> int_or_none (b a) \<and>
           int_or_none (warm_white a) \<and> int_or_none (cold_white a)
       | TempMode \<Rightarrow> int_or_none (colortemp a)
       | NoMode \<Rightarrow> True))"

definition scene_accepted :: "pyval \<Rightarrow> bool" where
  "scene_accepted sc = (case resolve_scene sc of Inl e \<Rightarrow> False | Inr sid \<Rightarrow> True)"


definition tuple_values :: "params \<Rightarrow> pyval \<Rightarrow> bool \<Rightarrow> bool" where
  "tuple_values p t cold =
     (case t of
        PTuple xs \<Rightarrow>
          emits p ''r'' 0 255 (xs ! 0) \<and> emits p ''g'' 0 255 (xs ! 1)
          \<and> emits p ''b'' 0 255 (xs ! 2)
          \<and> (3 < length xs \<longrightarrow> emits p ''w'' 0 255 (xs ! 3))
          \<and> (cold \<and> 4 < length xs \<longrightarrow> emits p ''c'' 0 255 (xs ! 4))
      | _ \<Rightarrow> False)"

definition mode_values :: "pilot_args \<Rightarrow> params \<Rightarrow> bool" where
  "mode_values a p =
     (case selected_mode a of
        SceneMode \<Rightarrow> True
      | RgbwwMode \<Rightarrow> tuple_values p (rgbww a) True
      | RgbwMode \<Rightarrow> tuple_values p (rgbw a) False
      | RgbMode \<Rightarrow>
          emits p ''r'' 0 255 (r a) \<and> emits p ''g'' 0 255 (g a) \<and> emits p ''b'' 0 255 (b a)
          \<and> (warm_white a \<noteq> PNone \<longrightarrow> emits p ''w'' 0 255 (warm_white a))
          \<and> (cold_white a \<noteq> PNone \<longrightarrow> emits p ''c'' 0 255 (cold_white a))
      | TempMode \<Rightarrow> emits p ''temp'' 1000 10000 (colortemp a)
      | NoMode \<Rightarrow> True)"

definition common_values :: "pilot_args \<Rightarrow> params \<Rightarrow> bool" where
  "common_values a p =
     ((brightness a \<noteq> PNone \<longrightarrow> emits p ''dimming'' 10 255 (brightness a))
      \<and> (speed a \<noteq> PNone \<longrightarrow> emits p ''speed'' 1 200 (speed a))
      \<and> (ratio a \<noteq> PNone \<longrightarrow> emits p ''ratio'' 0 100 (ratio a)))"

subsection \<open>Invalid arguments, as the specification describes them\<close>

text \<open>
  \<open>scene_unknown\<close>: the scene is an integer that is not a key of the registry, or a
  string that no registered name equals when both are lowercased.
  \<open>tuple_too_short\<close>: the selected rgbw or rgbww tuple has fewer than three items.
  \<open>claimed_used_by_mode\<close> and \<open>used_common\<close> list the numeric parameters that are
  used: the first five (four) items of the selected rgbww (rgbw) tuple, or the given ones
  of r, g, b, warm_white, cold_white in bare r/g/b mode, or colortemp; and the given ones
  of brightness, speed, ratio. \<open>claimed_invalid\<close> is the condition under which the
  specification says the constructor raises invalid-parameter.

  \<open>used_by_mode\<close> lists instead the values that reach \<^verbatim>\<open>_clamp\<close>: they differ in
  bare r/g/b mode, where \<^verbatim>\<open>r or 0\<close> is passed. \<open>well_typed\<close> says that the selected
  scene is an int or a str and the selected tuple a tuple, as the annotations have it;
  \<open>plain_rgb\<close> says that no bare r, g or b is a falsy non-integer (such as 0.0).
\<close>

definition scene_unknown :: "pyval \<Rightarrow> bool" where
  "scene_unknown sc =
     (case sc of
        PBool v \<Rightarrow> \<not> list_ex (\<lambda>(i, n). i = (if v then 1 else 0)) SCENES
      | PInt i \<Rightarrow> \<not> list_ex (\<lambda>(j, n). j = i) SCENES
      | PStr s \<Rightarrow> \<not> list_ex (\<lambda>(i, n). lower n = lower s) SCENES
      | _ \<Rightarrow> False)"

definition items :: "pyval \<Rightarrow> pyval list" where
  "items t = (case t of PTuple xs \<Rightarrow> xs | _ \<Rightarrow> [])"

definition given :: "pyval list \<Rightarrow> pyval list" where
  "given vs = filter (\<lambda>v. v \<noteq> PNone) vs"

definition tuple_too_short :: "pilot_args \<Rightarrow> bool" where
  "tuple_too_short a =
     (case selected_mode a of
        RgbwwMode \<Rightarrow> length (items (rgbww a)) < 3
      | RgbwMode \<Rightarrow> length (items (rgbw a)) < 3
      | _ \<Rightarrow> False)"

definition used_common :: "pilot_args \<Rightarrow> pyval list" where
  "used_common a = given [brightness a, speed a, ratio a]"

definition claimed_used_by_mode :: "pilot_args \<Rightarrow> pyval list" where
  "claimed_used_by_mode a =
     (case selected_mode a of
        SceneMode \<Rightarrow> []
      | RgbwwMode \<Rightarrow> take 5 (items (rgbww a))
      | RgbwMode \<Rightarrow> take 4 (items (rgbw a))
      | RgbMode \<Rightarrow> given [r a, g a, b a, warm_white a, cold_white a]
      | TempMode \<Rightarrow> [colortemp a]
      | NoMode \<Rightarrow> [])"

definition claimed_invalid :: "pilot_args \<Rightarrow> bool" where
  "claimed_invalid a =
     ((selected_mode a = SceneMode \<and> scene_unknown (scene a))
      \<or> tuple_too_short a
      \<or> \<not> list_all isinstance_int (claimed_used_by_mode a @ used_common a))"

definition used_by_mode :: "pilot_args \<Rightarrow> pyval list" where
  "used_by_mode a =
     (case selected_mode a of
        SceneMode \<Rightarrow> []
      | RgbwwMode \<Rightarrow> take 5 (items (rgbww a))
      | RgbwMode \<Rightarrow> take 4 (items (rgbw a))
      | RgbMode \<Rightarrow> [py_or (r a) (PInt 0), py_or (g a) (PInt 0), py_or (b a) (PInt 0)]
          @ given [warm_white a, cold_white a]
      | TempMode \<Rightarrow> [colortemp a]
      | NoMode \<Rightarrow> [])"

definition invalid_args :: "pilot_args \<Rightarrow> bool" where
  "invalid_args a =
     ((selected_mode a = SceneMode \<and> scene_unknown (scene a))
      \<or> tuple_too_short a
      \<or> \<not> list_all isinstance_int (used_by_mode a @ used_common a))"

definition is_tuple :: "pyval \<Rightarrow> bool" where
  "is_tuple v = (case v of PTuple xs \<Rightarrow> True | _ \<Rightarrow> False)"

definition is_int_or_str :: "pyval \<Rightarrow> bool" where
  "is_int_or_str v = (case v of PBool x \<Rightarrow> True | PInt i \<Rightarrow> True | PStr s \<Rightarrow> True | _ \<Rightarrow> False)"

definition well_typed :: "pilot_args \<Rightarrow> bool" where
  "well_typed a =
     (case selected_mode a of
        SceneMode \<Rightarrow> is_int_or_str (scene a)
      | RgbwwMode \<Rightarrow> is_tuple (rgbww a)
      | RgbwMode \<Rightarrow> is_tuple (rgbw a)
      | _ \<Rightarrow> True)"

definition plain_rgb :: "pilot_args \<Rightarrow> bool" where
  "plain_rgb a =
     (selected_mode a = RgbMode \<longrightarrow>
        list_all (\<lambda>v. v = PNone \<or> isinstance_int v \<or> truthy v) [r a, g a, b a])"

section \<open>PilotParser (pilot.py)\<close>

text \<open>
  \<^verbatim>\<open>float(v)\<close>. The conversion of a string is Python's own parser, which is not part of
  the library: it is the parameter \<open>str_float\<close>, giving None where Python raises
  ValueError.
\<close>

fun py_float :: "(string \<Rightarrow> rat option) \<Rightarrow> pyval \<Rightarrow> pyerr + rat" where
  "py_float str_float (PBool v) = Inr (if v then 1 else 0)"
| "py_float str_float (PInt i) = Inr (of_int i)"
| "py_float str_float (PFloat f) = Inr f"
| "py_float str_float (PStr s) =
     (case str_float s of None \<Rightarrow> Inl ValueError | Some f \<Rightarrow> Inr f)"
| "py_float str_float v = Inl TypeError"

text \<open>
  \<^verbatim>\<open>PilotParser(result).get_power()\<close>: the float, None (as \<open>Inr None\<close>), or the
  exception of \<^verbatim>\<open>float\<close>.
\<close>

definition get_power :: "(string \<Rightarrow> rat option) \<Rightarrow> (string \<times> pyval) list \<Rightarrow> pyerr + rat option" where
  "get_power str_float result =
     (let power = py_or (dict_get result ''pc'' PNone) (dict_get result ''w'' PNone) in
      if power \<noteq> PNone then then_do (py_float str_float power) (\<lambda>f. Inr (Some f))
      else Inr None)"

section \<open>PushManager (push.py)\<close>

text \<open>
  The registry \<^verbatim>\<open>_subscribers\<close> maps a MAC to the list of its callbacks. A callback is
  a value of an arbitrary type, compared with \<open>=\<close> as \<^verbatim>\<open>list.remove\<close> compares with
  \<^verbatim>\<open>==\<close>; calling it is recorded, with the parser it receives, in the list the handler
  returns. A callback neither changes the registry nor, since its exceptions are caught,
  stops the dispatch. The closure \<^verbatim>\<open>unsubscribe\<close> that \<^verbatim>\<open>subscribe\<close> returns is the
  pair of the two variables it captures, \<^verbatim>\<open>mac_lower\<close> and \<^verbatim>\<open>callback\<close>.
\<close>

type_synonym 'cb subscribers = "string \<rightharpoonup> 'cb list"

type_synonym 'cb disposer = "string \<times> 'cb"

definition subscribe :: "'cb subscribers \<Rightarrow> string \<Rightarrow> 'cb \<Rightarrow> 'cb subscribers \<times> 'cb disposer" where
  "subscribe subs mac callback =
     (let mac_lower = strip_char CHR ''-'' (strip_char CHR '':'' (lower mac));
          subs1 = (if subs mac_lower = None then subs(mac_lower \<mapsto> []) else subs);
          subs2 = (case subs1 mac_lower of
                     None \<Rightarrow> subs1
                   | Some l \<Rightarrow> subs1(mac_lower \<mapsto> l @ [callback]))
      in (subs2, (mac_lower, callback)))"

text \<open>
  Calling the closure: \<^verbatim>\<open>remove\<close> deletes the first occurrence, and the ValueError of
  a missing callback is suppressed, as \<open>remove1\<close> does.
\<close>

definition unsubscribe :: "'cb disposer \<Rightarrow> 'cb subscribers \<Rightarrow> 'cb subscribers" where
  "unsubscribe d subs =
     (case d of (mac_lower, callback) \<Rightarrow>
        (case subs mac_lower of
           None \<Rightarrow> subs
         | Some l \<Rightarrow>
             (let l1 = remove1 callback l in
              if l1 = [] then subs(mac_lower := None) else subs(mac_lower \<mapsto> l1))))"

text \<open>A sequence of \<^verbatim>\<open>subscribe\<close> calls, each given by its MAC and its callback.\<close>

fun subscribe_all :: "'cb subscribers \<Rightarrow> (string \<times> 'cb) list \<Rightarrow> 'cb subscribers" where
  "subscribe_all subs [] = subs"
| "subscribe_all subs ((mac, callback) # calls) =
     subscribe_all (fst (subscribe subs mac callback)) calls"

text \<open>\<^verbatim>\<open>self._subscribers.get(mac, [])\<close>\<close>

definition callbacks_for :: "'cb subscribers \<Rightarrow> string \<Rightarrow> 'cb list" where
  "callbacks_for subs mac = (case subs mac of None \<Rightarrow> [] | Some l \<Rightarrow> l)"

datatype PilotParser = PilotParser "(string \<times> pyval) list"

text \<open>
  \<^verbatim>\<open>_handle_sync_pilot(data, addr)\<close>; the address is only logged. \<^verbatim>\<open>.get\<close> on a value
  that is not a dict and \<^verbatim>\<open>.lower\<close> on one that is not a str raise AttributeError.
\<close>

definition handle_sync_pilot ::
    "'cb subscribers \<Rightarrow> (string \<times> pyval) list \<Rightarrow> pyerr + ('cb \<times> PilotParser) list" where
  "handle_sync_pilot subs data =
     (case dict_get data ''params'' (PDict []) of
        PDict params \<Rightarrow>
          (case dict_get params ''mac'' (PStr []) of
             PStr m \<Rightarrow>
               (let mac = lower m in
                if mac = [] then Inr []
                else Inr (map (\<lambda>callback. (callback, PilotParser params))
                            (callbacks_for subs mac)))
           | _ \<Rightarrow> Inl AttributeError)
      | _ \<Rightarrow> Inl AttributeError)"

text \<open>\<^verbatim>\<open>_on_message\<close>, for the subscriber callbacks: a firstBeat reaches none of them.\<close>

definition on_message ::
    "'cb subscribers \<Rightarrow> (string \<times> pyval) list \<Rightarrow> pyerr + ('cb \<times> PilotParser) list" where
  "on_message subs data =
     (if dict_get data ''method'' (PStr []) = PStr ''syncPilot''
      then handle_sync_pilot subs data else Inr [])"

section \<open>The retry client (protocol.py)\<close>

text \<open>
  What \<^verbatim>\<open>_send_once\<close> does is the network's choice: the transport is a function from
  the number of the attempt (from 0) to its outcome, an exception or a response mapping.
  \<^verbatim>\<open>send\<close> returns its result together with the trace of what it awaited: the sleeps and
  the calls of \<^verbatim>\<open>_send_once\<close>, each with its timeout.
\<close>

datatype outcome = Raises pyerr | Returns "(string \<times> pyval) list"

datatype event = Sleep rat | SendOnce rat

definition RETRY_DELAYS :: "rat list" where
  "RETRY_DELAYS = [0, 1 / 2, 3 / 2, 3, 6]"

definition TOTAL_TIMEOUT :: rat where
  "TOTAL_TIMEOUT = 11"

text \<open>\<^verbatim>\<open>self._retry_delays = retry_delays or list(_RETRY_DELAYS)\<close>\<close>

definition UDPClient :: "rat list option \<Rightarrow> rat list" where
  "UDPClient retry_delays =
     (case retry_delays of
        None \<Rightarrow> RETRY_DELAYS
      | Some ds \<Rightarrow> if ds = [] then RETRY_DELAYS else ds)"

text \<open>\<^verbatim>\<open>except (TimeoutError, WizLightConnectionError)\<close>\<close>

fun retryable :: "pyerr \<Rightarrow> bool" where
  "retryable (TimeoutError msg) = True"
| "retryable (WizLightConnectionError msg) = True"
| "retryable e = False"

fun send_loop ::
    "(nat \<Rightarrow> outcome) \<Rightarrow> rat \<Rightarrow> rat list \<Rightarrow> nat \<Rightarrow> pyerr option \<Rightarrow> event list
      \<Rightarrow> (pyerr + (string \<times> pyval) list) \<times> event list" where
  "send_loop transport timeout [] n last_exc evs =
     (Inl (WizLightTimeOutError last_exc), evs)"
| "send_loop transport timeout (delay # delays) n last_exc evs =
     (let evs1 = (if delay > 0 then evs @ [Sleep delay] else evs);
          evs2 = evs1 @ [SendOnce (min timeout 3)]
      in case transport n of
           Raises e \<Rightarrow>
             if retryable e then send_loop transport timeout delays (Suc n) (Some e) evs2
             else (Inl e, evs2)
         | Returns response \<Rightarrow>
             if map_of response ''error'' \<noteq> None then (Inl WizLightCommandError, evs2)
             else (Inr response, evs2))"

definition send ::
    "rat list \<Rightarrow> (nat \<Rightarrow> outcome) \<Rightarrow> rat
      \<Rightarrow> (pyerr + (string \<times> pyval) list) \<times> event list" where
  "send retry_delays transport timeout = send_loop transport timeout retry_delays 0 None []"

text \<open>The number of calls of \<^verbatim>\<open>_send_once\<close> in a trace.\<close>

definition attempts :: "event list \<Rightarrow> nat" where
  "attempts evs = length (filter (\<lambda>ev. case ev of SendOnce t \<Rightarrow> True | Sleep d \<Rightarrow> False) evs)"

text \<open>
  The two kinds of attempt of the specification: one that ends in a timeout or a
  connection error, and one whose response mapping has the key \<open>error\<close>; and the
  exception an attempt raised.
\<close>

definition retried :: "outcome \<Rightarrow> bool" where
  "retried oc = (case oc of Raises e \<Rightarrow> retryable e | Returns response \<Rightarrow> False)"

definition has_error :: "outcome \<Rightarrow> bool" where
  "has_error oc = (case oc of Raises e \<Rightarrow> False | Returns response \<Rightarrow> map_of response ''error'' \<noteq> None)"

definition raised :: "outcome \<Rightarrow> pyerr option" where
  "raised oc = (case oc of Raises e \<Rightarrow> Some e | Returns response \<Rightarrow> None)"

section \<open>Device types (models.py, devices.py, bulb.py)\<close>

datatype BulbClass = RGB | TW | DW | SOCKET | FANDIM

text \<open>The field \<^verbatim>\<open>brightness\<close> of Features is \<open>brightness_flag\<close> here.\<close>

record Features =
  color :: bool
  brightness_flag :: bool
  color_temp :: bool
  effect :: bool
  dual_head :: bool
  fan :: bool
  fan_reverse :: bool
  fan_breeze_mode :: bool

text \<open>The fields \<^verbatim>\<open>min\<close> and \<^verbatim>\<open>max\<close> of KelvinRange are \<open>min_k\<close> and \<open>max_k\<close>.\<close>

record KelvinRange =
  min_k :: int
  max_k :: int

record BulbType =
  bulb_type :: BulbClass
  name :: string
  features :: Features
  kelvin_range :: "KelvinRange option"
  fw_version :: string
  white_channels :: int
  white_to_color_ratio :: int
  fan_speed_range :: "int option"

text \<open>
  The constructor of the dataclass with the four arguments \<^verbatim>\<open>detect_bulb_type\<close> gives;
  the other fields take their defaults, \<^verbatim>\<open>white_channels: int = 1\<close> among them.
\<close>

definition mk_BulbType :: "BulbClass \<Rightarrow> string \<Rightarrow> Features \<Rightarrow> KelvinRange option \<Rightarrow> BulbType" where
  "mk_BulbType cls nm fs kelvin =
     \<lparr>bulb_type = cls, name = nm, features = fs, kelvin_range = kelvin, fw_version = [],
      white_channels = 1, white_to_color_ratio = 20, fan_speed_range = None\<rparr>"

text \<open>
  \<^verbatim>\<open>Features(color=c, brightness=br, color_temp=ct, effect=e)\<close> and the call with the
  three fan flags; the fields not named take their defaults, False.
\<close>

definition mk_Features :: "bool \<Rightarrow> bool \<Rightarrow> bool \<Rightarrow> bool \<Rightarrow> Features" where
  "mk_Features c br ct e =
     \<lparr>color = c, brightness_flag = br, color_temp = ct, effect = e, dual_head = False,
      fan = False, fan_reverse = False, fan_breeze_mode = False\<rparr>"

definition mk_Features_fan :: "bool \<Rightarrow> bool \<Rightarrow> bool \<Rightarrow> bool \<Rightarrow> bool \<Rightarrow> bool \<Rightarrow> bool \<Rightarrow> Features" where
  "mk_Features_fan c br ct e f fr fb =
     \<lparr>color = c, brightness_flag = br, color_temp = ct, effect = e, dual_head = False,
      fan = f, fan_reverse = fr, fan_breeze_mode = fb\<rparr>"

definition MODULE_PATTERNS :: "(string \<times> BulbClass \<times> Features \<times> KelvinRange option) list" where
  "MODULE_PATTERNS = [
    (''FANDIM'', FANDIM, mk_Features_fan False True False True True True True, None),
    (''SOCKET'', SOCKET, mk_Features False False False False, None),
    (''RGBWW'', RGB, mk_Features True True True True, Some \<lparr>min_k = 2200, max_k = 6500\<rparr>),
    (''RGBW'', RGB, mk_Features True True True True, Some \<lparr>min_k = 2200, max_k = 6500\<rparr>),
    (''RGB'', RGB, mk_Features True True False True, None),
    (''TW'', TW, mk_Features False True True True, Some \<lparr>min_k = 2700, max_k = 6500\<rparr>),
    (''DW'', DW, mk_Features False True False True, None),
    (''SHTW'', TW, mk_Features False True True True, Some \<lparr>min_k = 2700, max_k = 6500\<rparr>),
    (''DHTW'', TW, mk_Features False True True True, Some \<lparr>min_k = 2700, max_k = 6500\<rparr>),
    (''SHRGB'', RGB, mk_Features True True True True, Some \<lparr>min_k = 2200, max_k = 6500\<rparr>),
    (''DHRGB'', RGB, mk_Features True True True True, Some \<lparr>min_k = 2200, max_k = 6500\<rparr>)]"

definition KNOWN_MODULES :: "(string \<times> BulbClass \<times> KelvinRange option) list" where
  "KNOWN_MODULES = [
    (''ESP01_SHRGB1C_31'', RGB, Some \<lparr>min_k = 2200, max_k = 6500\<rparr>),
    (''ESP01_SHRGB3_01ABI'', RGB, Some \<lparr>min_k = 2200, max_k = 6500\<rparr>),
    (''ESP01_SHDW1_31'', DW, None),
    (''ESP01_SHTW1C_31'', TW, Some \<lparr>min_k = 2700, max_k = 6500\<rparr>),
    (''ESP03_SHRGB1C_01'', RGB, Some \<lparr>min_k = 2200, max_k = 6500\<rparr>),
    (''ESP03_SHRGB1W_01ABI'', RGB, Some \<lparr>min_k = 2200, max_k = 6500\<rparr>),
    (''ESP03_SHRGBP_31ABI'', RGB, Some \<lparr>min_k = 2200, max_k = 6500\<rparr>),
    (''ESP06_SHDW1_01'', DW, None),
    (''ESP06_SHDW9_01'', DW, None),
    (''ESP06_SHTW1_01'', TW, Some \<lparr>min_k = 2700, max_k = 6500\<rparr>),
    (''ESP06_SHTW9_01'', TW, Some \<lparr>min_k = 2700, max_k = 6500\<rparr>),
    (''ESP14_SHRGB1C_01ABI'', RGB, Some \<lparr>min_k = 2200, max_k = 6500\<rparr>),
    (''ESP15_SHRGB1C_01ABI'', RGB, Some \<lparr>min_k = 2200, max_k = 6500\<rparr>),
    (''ESP17_SHRGB9W_01ABI'', RGB, Some \<lparr>min_k = 2200, max_k = 6500\<rparr>),
    (''ESP20_SHRGB9W_01ABI'', RGB, Some \<lparr>min_k = 2200, max_k = 6500\<rparr>),
    (''ESP21_SHTW9_01'', TW, Some \<lparr>min_k = 2700, max_k = 6500\<rparr>),
    (''ESP56_SHTW11_01'', TW, Some \<lparr>min_k = 2700, max_k = 6500\<rparr>)]"

definition features_for_class :: "BulbClass \<Rightarrow> Features" where
  "features_for_class cls =
     (case cls of
        RGB \<Rightarrow> mk_Features True True True True
      | TW \<Rightarrow> mk_Features False True True True
      | DW \<Rightarrow> mk_Features False True False True
      | SOCKET \<Rightarrow> mk_Features False False False False
      | FANDIM \<Rightarrow> mk_Features_fan False True False True True True True)"

text \<open>\<^verbatim>\<open>pattern in s\<close> on strings: \<open>pattern\<close> occurs in \<open>s\<close> as a contiguous piece.\<close>

fun str_contains :: "string \<Rightarrow> string \<Rightarrow> bool" where
  "str_contains pattern [] = (pattern = [])"
| "str_contains pattern (ch # s) = (prefix pattern (ch # s) \<or> str_contains pattern s)"

text \<open>
  The argument \<^verbatim>\<open>white_range\<close> is None or a dict; its values are typed as the fields of
  KelvinRange they are stored in. The override is the statement
  \<^verbatim>\<open>if white_range and "min" in white_range and "max" in white_range: kelvin = ...\<close>.
\<close>

type_synonym white_range = "(string \<times> int) list option"

definition override_kelvin :: "white_range \<Rightarrow> KelvinRange option \<Rightarrow> KelvinRange option" where
  "override_kelvin wr kelvin =
     (case wr of
        None \<Rightarrow> kelvin
      | Some d \<Rightarrow>
          (case (map_of d ''min'', map_of d ''max'') of
             (Some mn, Some mx) \<Rightarrow>
               if d \<noteq> [] then Some \<lparr>min_k = mn, max_k = mx\<rparr> else kelvin
           | _ \<Rightarrow> kelvin))"

text \<open>The loop over \<^verbatim>\<open>_MODULE_PATTERNS\<close>; None when no pattern occurs in the name.\<close>

fun scan_patterns ::
    "(string \<times> BulbClass \<times> Features \<times> KelvinRange option) list \<Rightarrow> string \<Rightarrow> string
      \<Rightarrow> white_range \<Rightarrow> BulbType option" where
  "scan_patterns [] module_name name_upper wr = None"
| "scan_patterns ((pattern, cls, fs, kelvin) # rest) module_name name_upper wr =
     (if str_contains pattern name_upper
      then Some (mk_BulbType cls module_name
             (mk_Features_fan (color fs) (brightness_flag fs) (color_temp fs) (effect fs)
                (fan fs) (fan_reverse fs) (fan_breeze_mode fs))
             (override_kelvin wr kelvin))
      else scan_patterns rest module_name name_upper wr)"

definition detect_bulb_type :: "string \<Rightarrow> white_range \<Rightarrow> BulbType" where
  "detect_bulb_type module_name wr =
     (let name_upper = upper module_name in
      case map_of KNOWN_MODULES module_name of
        Some (cls, kelvin) \<Rightarrow>
          mk_BulbType cls module_name (features_for_class cls) (override_kelvin wr kelvin)
      | None \<Rightarrow>
          (case scan_patterns MODULE_PATTERNS module_name name_upper wr of
             Some bt \<Rightarrow> bt
           | None \<Rightarrow> mk_BulbType RGB module_name (mk_Features True True True True)
                       (Some \<lparr>min_k = 2200, max_k = 6500\<rparr>)))"

text \<open>
  \<^verbatim>\<open>wizlight.get_bulbtype\<close>, from the system configuration it has fetched: the fields
  \<^verbatim>\<open>moduleName\<close>, \<^verbatim>\<open>whiteRange\<close> and \<^verbatim>\<open>fwVersion\<close>, each of which may be missing.
\<close>

record sys_config =
  moduleName :: "string option"
  whiteRange :: white_range
  fwVersion :: "string option"

definition get_bulbtype :: "sys_config \<Rightarrow> BulbType" where
  "get_bulbtype config =
     (let module_name = (case moduleName config of None \<Rightarrow> [] | Some m \<Rightarrow> m);
          bt = detect_bulb_type module_name (whiteRange config);
          bt1 = bt\<lparr>fw_version := (case fwVersion config of None \<Rightarrow> [] | Some v \<Rightarrow> v)\<rparr>;
          name_upper = upper module_name
      in if str_contains ''RGBWW'' name_upper then bt1\<lparr>white_channels := 2\<rparr>
         else if str_contains ''RGBW'' name_upper then bt1\<lparr>white_channels := 1\<rparr>
         else bt1)"

section \<open>Turning off\<close>

text \<open>
  C6. A pilot built with \<^verbatim>\<open>state=False\<close> has exactly the params
  \<^verbatim>\<open>{"state": False}\<close>, whatever the other arguments are; nothing is validated, so
  no argument can make the constructor raise.
\<close>

theorem state_false_params:
  "\<not> state a \<Longrightarrow> PilotBuilder a = Inr [''state'' \<mapsto> PBool False]"
  by (simp add: PilotBuilder_def)

theorem state_false_params_witness:
  "\<not> state (default_args\<lparr>state := False, scene := PStr ''NoSuchScene'',
        brightness := PFloat (1/2), rgbw := PTuple []\<rparr>)
   \<and> PilotBuilder (default_args\<lparr>state := False, scene := PStr ''NoSuchScene'',
        brightness := PFloat (1/2), rgbw := PTuple []\<rparr>) = Inr [''state'' \<mapsto> PBool False]
   \<and> PilotBuilder (default_args\<lparr>scene := PStr ''NoSuchScene''\<rparr>) = Inl WizLightInvalidParameter"
proof -
  have unknown: "NAME_TO_ID (lower ''NoSuchScene'') = None"
    by code_simp
  have raises: "PilotBuilder (default_args\<lparr>scene := PStr ''NoSuchScene''\<rparr>)
      = Inl WizLightInvalidParameter"
    by (simp add: PilotBuilder_def default_args_def set_mode_def resolve_scene_def
        get_id_from_scene_name_def then_do_def unknown)
  show ?thesis
    using state_false_params [of "default_args\<lparr>state := False, scene := PStr ''NoSuchScene'',
        brightness := PFloat (1/2), rgbw := PTuple []\<rparr>"] raises
    by (simp add: default_args_def)
qed


section \<open>Mode exclusion\<close>

lemma then_do_Inr_iff: "then_do m f = Inr y \<longleftrightarrow> (\<exists>x. m = Inr x \<and> f x = Inr y)"
  by (cases m) (simp_all add: then_do_def)

lemma then_do_Inl_iff: "then_do m f = Inl e \<longleftrightarrow> (m = Inl e \<or> (\<exists>x. m = Inr x \<and> f x = Inl e))"
  by (cases m) (simp_all add: then_do_def)

lemma put_clamped_Inr:
  "put_clamped p k v lo hi = Inr p' \<Longrightarrow> dom p' = insert k (dom p)"
  by (auto simp: put_clamped_def clamp_def then_do_def split: if_splits)

lemma put_if_given_Inr:
  "put_if_given p k v lo hi = Inr p' \<Longrightarrow> dom p' = (if v \<noteq> PNone then insert k (dom p) else dom p)"
  using put_clamped_Inr [of p k v lo hi p'] by (simp add: put_if_given_def split: if_splits)

lemma put_item_Inr:
  assumes "put_item p k t i lo hi = Inr p'"
  shows "dom p' = insert k (dom p)"
proof -
  from assms obtain v where "put_clamped p k v lo hi = Inr p'"
    by (auto simp: put_item_def then_do_Inr_iff)
  then show ?thesis by (rule put_clamped_Inr)
qed

lemma put_item_if_Inr:
  "(if c then put_item p k t i lo hi else Inr p) = Inr p' \<Longrightarrow>
     dom p' = dom p \<union> (if c then {k} else {})"
  using put_item_Inr [of p k t i lo hi p'] by (simp split: if_splits)

lemma set_common_dom:
  assumes "set_common a p = Inr p'"
  shows "dom p' = dom p \<union> (if brightness a \<noteq> PNone then {''dimming''} else {})
     \<union> (if speed a \<noteq> PNone then {''speed''} else {})
     \<union> (if ratio a \<noteq> PNone then {''ratio''} else {})"
proof -
  from assms obtain p1 p2 where
    s1: "put_if_given p ''dimming'' (brightness a) 10 255 = Inr p1" and
    s2: "put_if_given p1 ''speed'' (speed a) 1 200 = Inr p2" and
    s3: "put_if_given p2 ''ratio'' (ratio a) 0 100 = Inr p'"
    by (auto simp: set_common_def then_do_Inr_iff)
  show ?thesis
    using put_if_given_Inr [OF s1] put_if_given_Inr [OF s2] put_if_given_Inr [OF s3]
    by (auto split: if_splits)
qed

lemma set_common_mode_keys:
  "set_common a p = Inr p' \<Longrightarrow> mode_keys p' = mode_keys p"
  by (drule set_common_dom) (auto simp: mode_keys_def split: if_splits)

lemma set_rgbw_dom:
  assumes "set_rgbw p t = Inr p'"
  shows "dom p' = dom p \<union> {''r'', ''g'', ''b''} \<union> (if len_of t > 3 then {''w''} else {})"
proof -
  from assms obtain n where n: "py_len t = Inr n" and "\<not> n < 3"
    by (auto simp: set_rgbw_def then_do_Inr_iff split: if_splits)
  with assms obtain p1 p2 p3 where
    s1: "put_item p ''r'' t 0 0 255 = Inr p1" and
    s2: "put_item p1 ''g'' t 1 0 255 = Inr p2" and
    s3: "put_item p2 ''b'' t 2 0 255 = Inr p3" and
    s4: "(if n > 3 then put_item p3 ''w'' t 3 0 255 else Inr p3) = Inr p'"
    by (fastforce simp: set_rgbw_def then_do_Inr_iff)
  have l: "len_of t = n" using n by (simp add: len_of_def)
  show ?thesis
  proof (cases "n > 3")
    case True
    with s4 have "put_item p3 ''w'' t 3 0 255 = Inr p'" by simp
    from put_item_Inr [OF this] put_item_Inr [OF s1] put_item_Inr [OF s2] put_item_Inr [OF s3] True l
    show ?thesis by auto
  next
    case False
    with s4 have "p' = p3" by simp
    with put_item_Inr [OF s1] put_item_Inr [OF s2] put_item_Inr [OF s3] False l
    show ?thesis by auto
  qed
qed

lemma set_rgbww_dom:
  assumes "set_rgbww p t = Inr p'"
  shows "dom p' = dom p \<union> {''r'', ''g'', ''b''} \<union> (if len_of t > 3 then {''w''} else {})
     \<union> (if len_of t > 4 then {''c''} else {})"
proof -
  from assms obtain n where n: "py_len t = Inr n" and "\<not> n < 3"
    by (auto simp: set_rgbww_def then_do_Inr_iff split: if_splits)
  with assms obtain p1 p2 p3 p4 where
    s1: "put_item p ''r'' t 0 0 255 = Inr p1" and
    s2: "put_item p1 ''g'' t 1 0 255 = Inr p2" and
    s3: "put_item p2 ''b'' t 2 0 255 = Inr p3" and
    s4: "(if n > 3 then put_item p3 ''w'' t 3 0 255 else Inr p3) = Inr p4" and
    s5: "(if n > 4 then put_item p4 ''c'' t 4 0 255 else Inr p4) = Inr p'"
    by (fastforce simp: set_rgbww_def then_do_Inr_iff)
  have l: "len_of t = n" using n by (simp add: len_of_def)
  have d3: "dom p3 = dom p \<union> {''r'', ''g'', ''b''}"
    using put_item_Inr [OF s1] put_item_Inr [OF s2] put_item_Inr [OF s3] by auto
  have d4: "dom p4 = dom p3 \<union> (if n > 3 then {''w''} else {})"
    using s4 by (rule put_item_if_Inr)
  have d5: "dom p' = dom p4 \<union> (if n > 4 then {''c''} else {})"
    using s5 by (rule put_item_if_Inr)
  show ?thesis unfolding d5 d4 d3 l by simp
qed

lemma set_rgb_dom:
  assumes "then_do (put_clamped p ''r'' x 0 255) (\<lambda>p1.
        then_do (put_clamped p1 ''g'' y 0 255) (\<lambda>p2.
        then_do (put_clamped p2 ''b'' z 0 255) (\<lambda>p3.
        then_do (put_if_given p3 ''w'' ww 0 255) (\<lambda>p4.
        put_if_given p4 ''c'' cw 0 255)))) = Inr p'"
  shows "dom p' = dom p \<union> {''r'', ''g'', ''b''} \<union> (if ww \<noteq> PNone then {''w''} else {})
     \<union> (if cw \<noteq> PNone then {''c''} else {})"
proof -
  from assms obtain p1 p2 p3 p4 where
    s1: "put_clamped p ''r'' x 0 255 = Inr p1" and
    s2: "put_clamped p1 ''g'' y 0 255 = Inr p2" and
    s3: "put_clamped p2 ''b'' z 0 255 = Inr p3" and
    s4: "put_if_given p3 ''w'' ww 0 255 = Inr p4" and
    s5: "put_if_given p4 ''c'' cw 0 255 = Inr p'"
    by (auto simp: then_do_Inr_iff)
  have d3: "dom p3 = dom p \<union> {''r'', ''g'', ''b''}"
    using put_clamped_Inr [OF s1] put_clamped_Inr [OF s2] put_clamped_Inr [OF s3] by auto
  show ?thesis
    unfolding put_if_given_Inr [OF s5] put_if_given_Inr [OF s4] d3 by auto
qed

lemma set_mode_dom:
  assumes "set_mode a p = Inr p'"
  shows "dom p' = dom p \<union> expected_keys a"
proof (cases "selected_mode a")
  case SceneMode
  then have "scene a \<noteq> PNone" by (auto simp: selected_mode_def split: if_splits)
  with assms SceneMode show ?thesis
    by (auto simp: set_mode_def expected_keys_def then_do_Inr_iff)
next
  case RgbwwMode
  then have "scene a = PNone" "rgbww a \<noteq> PNone" by (auto simp: selected_mode_def split: if_splits)
  with assms have "set_rgbww p (rgbww a) = Inr p'" by (simp add: set_mode_def)
  from set_rgbww_dom [OF this] RgbwwMode show ?thesis by (simp add: expected_keys_def)
next
  case RgbwMode
  then have "scene a = PNone" "rgbww a = PNone" "rgbw a \<noteq> PNone"
    by (auto simp: selected_mode_def split: if_splits)
  with assms have "set_rgbw p (rgbw a) = Inr p'" by (simp add: set_mode_def)
  from set_rgbw_dom [OF this] RgbwMode show ?thesis by (simp add: expected_keys_def)
next
  case RgbMode
  then have "scene a = PNone" "rgbww a = PNone" "rgbw a = PNone"
    "r a \<noteq> PNone \<or> g a \<noteq> PNone \<or> b a \<noteq> PNone"
    by (auto simp: selected_mode_def split: if_splits)
  with assms have "then_do (put_clamped p ''r'' (py_or (r a) (PInt 0)) 0 255) (\<lambda>p1.
        then_do (put_clamped p1 ''g'' (py_or (g a) (PInt 0)) 0 255) (\<lambda>p2.
        then_do (put_clamped p2 ''b'' (py_or (b a) (PInt 0)) 0 255) (\<lambda>p3.
        then_do (put_if_given p3 ''w'' (warm_white a) 0 255) (\<lambda>p4.
        put_if_given p4 ''c'' (cold_white a) 0 255)))) = Inr p'"
    by (simp add: set_mode_def)
  from set_rgb_dom [OF this] RgbMode show ?thesis by (simp add: expected_keys_def)
next
  case TempMode
  then have "scene a = PNone" "rgbww a = PNone" "rgbw a = PNone"
    "r a = PNone" "g a = PNone" "b a = PNone" "colortemp a \<noteq> PNone"
    by (auto simp: selected_mode_def split: if_splits)
  with assms have "put_clamped p ''temp'' (colortemp a) 1000 10000 = Inr p'"
    by (simp add: set_mode_def)
  from put_clamped_Inr [OF this] TempMode show ?thesis by (simp add: expected_keys_def)
next
  case NoMode
  then have "scene a = PNone" "rgbww a = PNone" "rgbw a = PNone"
    "r a = PNone" "g a = PNone" "b a = PNone" "colortemp a = PNone"
    by (auto simp: selected_mode_def split: if_splits)
  with assms NoMode show ?thesis by (simp add: set_mode_def expected_keys_def)
qed

lemma expected_keys_sub: "expected_keys a \<subseteq> {''sceneId'', ''r'', ''g'', ''b'', ''w'', ''c'', ''temp''}"
  by (cases "selected_mode a") (auto simp: expected_keys_def split: if_splits)

lemma PilotBuilder_mode_keys:
  assumes "state a" and "PilotBuilder a = Inr p"
  shows "mode_keys p = expected_keys a"
proof -
  from assms obtain p1 where
    m: "set_mode a [''state'' \<mapsto> PBool (state a)] = Inr p1" and c: "set_common a p1 = Inr p"
    by (auto simp: PilotBuilder_def then_do_Inr_iff)
  have "mode_keys p = mode_keys p1" using c by (rule set_common_mode_keys)
  also have "\<dots> = expected_keys a"
    using set_mode_dom [OF m] expected_keys_sub [of a] by (auto simp: mode_keys_def)
  finally show ?thesis .
qed

lemma set_mode_ignore_lower: "set_mode (ignore_lower a) p = set_mode a p"
  by (cases "selected_mode a")
     (auto simp: ignore_lower_def selected_mode_def set_mode_def split: if_splits)

lemma set_common_ignore_lower: "set_common (ignore_lower a) = set_common a"
  by (cases "selected_mode a") (auto simp: ignore_lower_def set_common_def fun_eq_iff)

lemma PilotBuilder_ignore_lower: "PilotBuilder (ignore_lower a) = PilotBuilder a"
proof -
  have "state (ignore_lower a) = state a"
    by (cases "selected_mode a") (simp_all add: ignore_lower_def)
  then show ?thesis
    by (simp add: PilotBuilder_def Let_def set_mode_ignore_lower set_common_ignore_lower)
qed


text \<open>
  C1. A pilot built with \<^verbatim>\<open>state=True\<close> carries the keys of exactly one mode: the
  mode keys of the params are those of the mode selected by the priority scene, rgbww,
  rgbw, bare r/g/b, colortemp, that is \<open>sceneId\<close> alone, or \<open>r\<close>, \<open>g\<close>, \<open>b\<close>
  with possibly \<open>w\<close> and \<open>c\<close>, or \<open>temp\<close> alone, or none; and the arguments of
  every mode of lower priority contribute nothing: withdrawing them gives the same params.
\<close>

theorem mode_exclusive:
  assumes "state a" and "PilotBuilder a = Inr p"
  shows "mode_keys p = expected_keys a
    \<and> (mode_keys p = {''sceneId''}
       \<or> ({''r'', ''g'', ''b''} \<subseteq> mode_keys p \<and> mode_keys p \<subseteq> {''r'', ''g'', ''b'', ''w'', ''c''})
       \<or> mode_keys p = {''temp''}
       \<or> mode_keys p = {})
    \<and> PilotBuilder (ignore_lower a) = Inr p"
proof -
  have k: "mode_keys p = expected_keys a"
    using assms by (rule PilotBuilder_mode_keys)
  have "expected_keys a = {''sceneId''}
       \<or> ({''r'', ''g'', ''b''} \<subseteq> expected_keys a \<and> expected_keys a \<subseteq> {''r'', ''g'', ''b'', ''w'', ''c''})
       \<or> expected_keys a = {''temp''}
       \<or> expected_keys a = {}"
    by (cases "selected_mode a") (auto simp: expected_keys_def split: if_splits)
  with k assms(2) show ?thesis
    by (simp add: PilotBuilder_ignore_lower)
qed

theorem mode_exclusive_witness:
  "state (default_args\<lparr>scene := PStr ''Fireplace'', r := PInt 10, g := PInt 20, b := PInt 30,
      colortemp := PInt 3000\<rparr>)
   \<and> PilotBuilder (default_args\<lparr>scene := PStr ''Fireplace'', r := PInt 10, g := PInt 20,
      b := PInt 30, colortemp := PInt 3000\<rparr>)
     = Inr [''state'' \<mapsto> PBool True, ''sceneId'' \<mapsto> PInt 5]
   \<and> mode_keys [''state'' \<mapsto> PBool True, ''sceneId'' \<mapsto> PInt 5] = {''sceneId''}
   \<and> PilotBuilder (default_args\<lparr>scene := PStr ''Fireplace''\<rparr>)
     = Inr [''state'' \<mapsto> PBool True, ''sceneId'' \<mapsto> PInt 5]"
proof -
  have known: "NAME_TO_ID (lower ''Fireplace'') = Some 5"
    by code_simp
  have built: "PilotBuilder (default_args\<lparr>scene := PStr ''Fireplace'', r := PInt 10, g := PInt 20,
      b := PInt 30, colortemp := PInt 3000\<rparr>)
     = Inr [''state'' \<mapsto> PBool True, ''sceneId'' \<mapsto> PInt 5]"
    by (simp add: PilotBuilder_def default_args_def set_mode_def set_common_def
        put_if_given_def resolve_scene_def get_id_from_scene_name_def then_do_def known)
  have st: "state (default_args\<lparr>scene := PStr ''Fireplace'', r := PInt 10, g := PInt 20,
      b := PInt 30, colortemp := PInt 3000\<rparr>)"
    by (simp add: default_args_def)
  show ?thesis
    using mode_exclusive [OF st built] st built
    by (simp add: expected_keys_def selected_mode_def ignore_lower_def default_args_def)
qed


section \<open>Clamping\<close>

lemma then_do_simps [simp]: "then_do (Inl e) f = Inl e" "then_do (Inr x) f = f x"
  by (simp_all add: then_do_def)

lemma is_PInt_D: "is_PInt v \<Longrightarrow> v = PInt (int_of v)"
  by (cases v) (simp_all add: is_PInt_def)

lemma put_clamped_PInt:
  "lo \<le> hi \<Longrightarrow> put_clamped p k (PInt v) lo hi = Inr (p(k \<mapsto> PInt (clamped lo hi v)))"
  by (simp add: put_clamped_def clamp_def py_max_def py_min_def clamped_def)

lemma put_clamped_is_PInt:
  "lo \<le> hi \<Longrightarrow> is_PInt v \<Longrightarrow>
     put_clamped p k v lo hi = Inr (p(k \<mapsto> PInt (clamped lo hi (int_of v))))"
  using put_clamped_PInt [of lo hi p k "int_of v"] is_PInt_D [of v] by simp

lemma put_if_given_int:
  "lo \<le> hi \<Longrightarrow> int_or_none v \<Longrightarrow>
     put_if_given p k v lo hi =
       Inr (if v = PNone then p else p(k \<mapsto> PInt (clamped lo hi (int_of v))))"
  by (auto simp: put_if_given_def int_or_none_def put_clamped_is_PInt)

lemma put_item_int:
  "lo \<le> hi \<Longrightarrow> n < length xs \<Longrightarrow> is_PInt (xs ! n) \<Longrightarrow>
     put_item p k (PTuple xs) n lo hi = Inr (p(k \<mapsto> PInt (clamped lo hi (int_of (xs ! n)))))"
  by (simp add: put_item_def put_clamped_is_PInt)

lemma set_common_ints:
  assumes "int_or_none (brightness a)" "int_or_none (speed a)" "int_or_none (ratio a)"
  shows "\<exists>p'. set_common a p = Inr p'
     \<and> (brightness a \<noteq> PNone \<longrightarrow> emits p' ''dimming'' 10 255 (brightness a))
     \<and> (speed a \<noteq> PNone \<longrightarrow> emits p' ''speed'' 1 200 (speed a))
     \<and> (ratio a \<noteq> PNone \<longrightarrow> emits p' ''ratio'' 0 100 (ratio a))
     \<and> (\<forall>k. k \<noteq> ''dimming'' \<and> k \<noteq> ''speed'' \<and> k \<noteq> ''ratio'' \<longrightarrow> p' k = p k)"
  using assms by (simp add: set_common_def put_if_given_int emits_def)

lemma int_tuple_nth:
  "int_tuple (PTuple xs) \<Longrightarrow> n < length xs \<Longrightarrow> is_PInt (xs ! n)"
  by (simp add: int_tuple_def list_all_length)

lemma set_rgbw_ints:
  assumes "int_tuple (PTuple xs)"
  shows "\<exists>p'. set_rgbw p (PTuple xs) = Inr p'
     \<and> emits p' ''r'' 0 255 (xs ! 0) \<and> emits p' ''g'' 0 255 (xs ! 1)
     \<and> emits p' ''b'' 0 255 (xs ! 2)
     \<and> (3 < length xs \<longrightarrow> emits p' ''w'' 0 255 (xs ! 3))"
proof -
  from assms have len: "3 \<le> length xs" by (simp add: int_tuple_def)
  have e: "\<And>n q k. n < length xs \<Longrightarrow>
      put_item q k (PTuple xs) n 0 255 = Inr (q(k \<mapsto> PInt (clamped 0 255 (int_of (xs ! n)))))"
    using int_tuple_nth [OF assms] by (simp add: put_item_int)
  have e0: "0 < length xs" and e1: "1 < length xs" and e2: "2 < length xs"
    using len by linarith+
  show ?thesis
    using len by (simp add: set_rgbw_def e [OF e0] e [OF e1] e [OF e2] e emits_def)
qed

lemma set_rgbww_ints:
  assumes "int_tuple (PTuple xs)"
  shows "\<exists>p'. set_rgbww p (PTuple xs) = Inr p'
     \<and> emits p' ''r'' 0 255 (xs ! 0) \<and> emits p' ''g'' 0 255 (xs ! 1)
     \<and> emits p' ''b'' 0 255 (xs ! 2)
     \<and> (3 < length xs \<longrightarrow> emits p' ''w'' 0 255 (xs ! 3))
     \<and> (4 < length xs \<longrightarrow> emits p' ''c'' 0 255 (xs ! 4))"
proof -
  from assms have len: "3 \<le> length xs" by (simp add: int_tuple_def)
  have e: "\<And>n q k. n < length xs \<Longrightarrow>
      put_item q k (PTuple xs) n 0 255 = Inr (q(k \<mapsto> PInt (clamped 0 255 (int_of (xs ! n)))))"
    using int_tuple_nth [OF assms] by (simp add: put_item_int)
  have e0: "0 < length xs" and e1: "1 < length xs" and e2: "2 < length xs"
    using len by linarith+
  show ?thesis
    using len by (simp add: set_rgbww_def e [OF e0] e [OF e1] e [OF e2] e emits_def)
qed

lemma py_or_int: "int_or_none v \<Longrightarrow> py_or v (PInt 0) = PInt (int_of v)"
  by (cases v) (auto simp: py_or_def int_or_none_def is_PInt_def)

lemma set_rgb_ints:
  assumes "int_or_none x" "int_or_none y" "int_or_none z" "int_or_none ww" "int_or_none cw"
  shows "\<exists>p'. then_do (put_clamped p ''r'' (py_or x (PInt 0)) 0 255) (\<lambda>p1.
        then_do (put_clamped p1 ''g'' (py_or y (PInt 0)) 0 255) (\<lambda>p2.
        then_do (put_clamped p2 ''b'' (py_or z (PInt 0)) 0 255) (\<lambda>p3.
        then_do (put_if_given p3 ''w'' ww 0 255) (\<lambda>p4.
        put_if_given p4 ''c'' cw 0 255)))) = Inr p'
     \<and> emits p' ''r'' 0 255 x \<and> emits p' ''g'' 0 255 y \<and> emits p' ''b'' 0 255 z
     \<and> (ww \<noteq> PNone \<longrightarrow> emits p' ''w'' 0 255 ww)
     \<and> (cw \<noteq> PNone \<longrightarrow> emits p' ''c'' 0 255 cw)"
  using assms by (simp add: py_or_int put_clamped_PInt put_if_given_int emits_def)


lemma set_mode_ints:
  assumes sc: "scene a \<noteq> PNone \<longrightarrow> scene_accepted (scene a)" and ints: "integer_inputs a"
  shows "\<exists>p'. set_mode a p = Inr p' \<and> mode_values a p'"
proof (cases "selected_mode a")
  case SceneMode
  then have "scene a \<noteq> PNone" by (auto simp: selected_mode_def split: if_splits)
  with sc obtain sid where "resolve_scene (scene a) = Inr sid"
    by (auto simp: scene_accepted_def split: sum.splits)
  with \<open>scene a \<noteq> PNone\<close> SceneMode show ?thesis
    by (simp add: set_mode_def mode_values_def)
next
  case RgbwwMode
  then have sel: "scene a = PNone" "rgbww a \<noteq> PNone"
    by (auto simp: selected_mode_def split: if_splits)
  from ints RgbwwMode have "int_tuple (rgbww a)" by (simp add: integer_inputs_def)
  then obtain xs where xs: "rgbww a = PTuple xs" and it: "int_tuple (PTuple xs)"
    by (cases "rgbww a") (simp_all add: int_tuple_def)
  from set_rgbww_ints [OF it, of p] sel xs RgbwwMode show ?thesis
    by (auto simp: set_mode_def mode_values_def tuple_values_def)
next
  case RgbwMode
  then have sel: "scene a = PNone" "rgbww a = PNone" "rgbw a \<noteq> PNone"
    by (auto simp: selected_mode_def split: if_splits)
  from ints RgbwMode have "int_tuple (rgbw a)" by (simp add: integer_inputs_def)
  then obtain xs where xs: "rgbw a = PTuple xs" and it: "int_tuple (PTuple xs)"
    by (cases "rgbw a") (simp_all add: int_tuple_def)
  from set_rgbw_ints [OF it, of p] sel xs RgbwMode show ?thesis
    by (auto simp: set_mode_def mode_values_def tuple_values_def)
next
  case RgbMode
  then have sel: "scene a = PNone" "rgbww a = PNone" "rgbw a = PNone"
    "r a \<noteq> PNone \<or> g a \<noteq> PNone \<or> b a \<noteq> PNone"
    by (auto simp: selected_mode_def split: if_splits)
  from ints RgbMode have i: "int_or_none (r a)" "int_or_none (g a)" "int_or_none (b a)"
    "int_or_none (warm_white a)" "int_or_none (cold_white a)"
    by (simp_all add: integer_inputs_def)
  from set_rgb_ints [OF i, of p] sel RgbMode show ?thesis
    by (simp add: set_mode_def mode_values_def)
next
  case TempMode
  then have sel: "scene a = PNone" "rgbww a = PNone" "rgbw a = PNone"
    "r a = PNone" "g a = PNone" "b a = PNone" "colortemp a \<noteq> PNone"
    by (auto simp: selected_mode_def split: if_splits)
  from ints TempMode have "int_or_none (colortemp a)" by (simp add: integer_inputs_def)
  with sel have "is_PInt (colortemp a)" by (simp add: int_or_none_def)
  with sel TempMode show ?thesis
    by (simp add: set_mode_def mode_values_def put_clamped_is_PInt emits_def)
next
  case NoMode
  then have sel: "scene a = PNone" "rgbww a = PNone" "rgbw a = PNone"
    "r a = PNone" "g a = PNone" "b a = PNone" "colortemp a = PNone"
    by (auto simp: selected_mode_def split: if_splits)
  with NoMode show ?thesis by (simp add: set_mode_def mode_values_def)
qed

lemma tuple_values_cong:
  assumes "\<forall>k. k \<noteq> ''dimming'' \<and> k \<noteq> ''speed'' \<and> k \<noteq> ''ratio'' \<longrightarrow> p' k = p k"
  shows "tuple_values p' t cold = tuple_values p t cold"
proof -
  have e: "p' ''r'' = p ''r''" "p' ''g'' = p ''g''" "p' ''b'' = p ''b''"
    "p' ''w'' = p ''w''" "p' ''c'' = p ''c''"
    using assms by simp_all
  show ?thesis
    by (cases t) (simp_all add: tuple_values_def emits_def e)
qed

lemma mode_values_cong:
  assumes "\<forall>k. k \<noteq> ''dimming'' \<and> k \<noteq> ''speed'' \<and> k \<noteq> ''ratio'' \<longrightarrow> p' k = p k"
  shows "mode_values a p' = mode_values a p"
proof -
  have e: "p' ''r'' = p ''r''" "p' ''g'' = p ''g''" "p' ''b'' = p ''b''"
    "p' ''w'' = p ''w''" "p' ''c'' = p ''c''" "p' ''temp'' = p ''temp''"
    using assms by simp_all
  show ?thesis
    by (cases "selected_mode a")
       (simp_all add: mode_values_def tuple_values_cong [OF assms] emits_def e)
qed


text \<open>
  C7. For integer inputs the builder clamps and never rejects a value for its range: when
  the scene (if any) resolves and the numeric arguments are integers, the constructor
  succeeds and emits brightness clamped into 10..255 as \<open>dimming\<close>, speed into 1..200,
  ratio into 0..100, colortemp into 1000..10000 as \<open>temp\<close>, and the r, g, b, w, c
  channels (keyword arguments or tuple items) into 0..255. By the definition of
  \<open>clamped\<close> a value inside its range is emitted unchanged.
\<close>

theorem clamps_integers:
  assumes "state a"
    and "scene a \<noteq> PNone \<longrightarrow> scene_accepted (scene a)"
    and "integer_inputs a"
  shows "\<exists>p. PilotBuilder a = Inr p \<and> common_values a p \<and> mode_values a p"
proof -
  from set_mode_ints [OF assms(2,3)] obtain p1 where
    m: "set_mode a [''state'' \<mapsto> PBool (state a)] = Inr p1" and mv: "mode_values a p1"
    by blast
  from assms(3) have i: "int_or_none (brightness a)" "int_or_none (speed a)"
    "int_or_none (ratio a)"
    by (simp_all add: integer_inputs_def)
  from set_common_ints [OF i, of p1] obtain p where
    c: "set_common a p1 = Inr p" and cv: "common_values a p" and
    same: "\<forall>k. k \<noteq> ''dimming'' \<and> k \<noteq> ''speed'' \<and> k \<noteq> ''ratio'' \<longrightarrow> p k = p1 k"
    unfolding common_values_def by blast
  have "PilotBuilder a = Inr p"
    using assms(1) m c by (simp add: PilotBuilder_def)
  moreover have "mode_values a p"
    using mode_values_cong [OF same, of a] mv by simp
  ultimately show ?thesis using cv by blast
qed


theorem clamps_integers_witness:
  "state (default_args\<lparr>rgbww := PTuple [PInt 300, PInt (- 5), PInt 20, PInt 128, PInt 999],
      brightness := PInt 5, speed := PInt 9999, ratio := PInt (- 10)\<rparr>)
   \<and> integer_inputs (default_args\<lparr>rgbww := PTuple [PInt 300, PInt (- 5), PInt 20, PInt 128,
      PInt 999], brightness := PInt 5, speed := PInt 9999, ratio := PInt (- 10)\<rparr>)
   \<and> (\<exists>p. PilotBuilder (default_args\<lparr>rgbww := PTuple [PInt 300, PInt (- 5), PInt 20,
        PInt 128, PInt 999], brightness := PInt 5, speed := PInt 9999, ratio := PInt (- 10)\<rparr>)
        = Inr p
      \<and> p ''dimming'' = Some (PInt 10) \<and> p ''speed'' = Some (PInt 200)
      \<and> p ''ratio'' = Some (PInt 0) \<and> p ''r'' = Some (PInt 255) \<and> p ''g'' = Some (PInt 0)
      \<and> p ''b'' = Some (PInt 20) \<and> p ''w'' = Some (PInt 128) \<and> p ''c'' = Some (PInt 255))"
proof -
  let ?a = "default_args\<lparr>rgbww := PTuple [PInt 300, PInt (- 5), PInt 20, PInt 128, PInt 999],
      brightness := PInt 5, speed := PInt 9999, ratio := PInt (- 10)\<rparr>"
  have st: "state ?a" by (simp add: default_args_def)
  have sc: "scene ?a \<noteq> PNone \<longrightarrow> scene_accepted (scene ?a)" by (simp add: default_args_def)
  have ints: "integer_inputs ?a"
    by (simp add: integer_inputs_def default_args_def selected_mode_def int_or_none_def
        int_tuple_def is_PInt_def)
  from clamps_integers [OF st sc ints] obtain p where
    "PilotBuilder ?a = Inr p" "common_values ?a p" "mode_values ?a p" by blast
  then have "PilotBuilder ?a = Inr p
      \<and> p ''dimming'' = Some (PInt 10) \<and> p ''speed'' = Some (PInt 200)
      \<and> p ''ratio'' = Some (PInt 0) \<and> p ''r'' = Some (PInt 255) \<and> p ''g'' = Some (PInt 0)
      \<and> p ''b'' = Some (PInt 20) \<and> p ''w'' = Some (PInt 128) \<and> p ''c'' = Some (PInt 255)"
    by (simp add: common_values_def mode_values_def tuple_values_def emits_def clamped_def
        selected_mode_def default_args_def)
  with st ints show ?thesis by blast
qed


section \<open>Invalid parameters\<close>

lemma list_ex_fst: "list_ex (\<lambda>(j, n). j = i) xs \<longleftrightarrow> map_of xs i \<noteq> None"
  by (induction xs) auto

lemma NAME_TO_ID_None: "NAME_TO_ID l = None \<longleftrightarrow> \<not> list_ex (\<lambda>(i, n). lower n = l) SCENES"
proof -
  have "map_of (rev (map (\<lambda>(i, n). (lower n, i)) xs)) l = None
      \<longleftrightarrow> \<not> list_ex (\<lambda>(i, n). lower n = l) xs" for xs :: "(int \<times> string) list"
    by (auto simp: map_of_eq_None_iff list_ex_iff image_iff split: prod.splits)
  then show ?thesis by (simp add: NAME_TO_ID_def)
qed

lemma resolve_scene_outcome:
  assumes "is_int_or_str sc"
  shows "if scene_unknown sc then resolve_scene sc = Inl WizLightInvalidParameter
         else (\<exists>sid. resolve_scene sc = Inr sid)"
proof (cases sc)
  case (PBool v)
  then show ?thesis
    using list_ex_fst [of "if v then 1 else 0" SCENES]
    by (auto simp: resolve_scene_def scene_unknown_def)
next
  case (PInt i)
  then show ?thesis
    using list_ex_fst [of i SCENES]
    by (auto simp: resolve_scene_def scene_unknown_def)
next
  case (PStr s)
  then show ?thesis
    by (cases "NAME_TO_ID (lower s)")
       (auto simp: resolve_scene_def scene_unknown_def get_id_from_scene_name_def
          NAME_TO_ID_None [symmetric])
qed (use assms in \<open>simp_all add: is_int_or_str_def\<close>)

lemma put_clamped_eq:
  "put_clamped p k v lo hi =
     (if isinstance_int v then Inr (p(k \<mapsto> py_max (PInt lo) (py_min (PInt hi) v)))
      else Inl WizLightInvalidParameter)"
  by (simp add: put_clamped_def clamp_def)

lemma put_clamped_outcome:
  "if isinstance_int v then (\<exists>p'. put_clamped p k v lo hi = Inr p')
   else put_clamped p k v lo hi = Inl WizLightInvalidParameter"
  by (simp add: put_clamped_eq)

lemma put_if_given_outcome:
  "if list_all isinstance_int (given [v]) then (\<exists>p'. put_if_given p k v lo hi = Inr p')
   else put_if_given p k v lo hi = Inl WizLightInvalidParameter"
  by (simp add: put_if_given_def put_clamped_eq given_def)


lemma set_common_outcome:
  "if list_all isinstance_int (used_common a) then (\<exists>p'. set_common a p = Inr p')
   else set_common a p = Inl WizLightInvalidParameter"
  by (simp add: set_common_def used_common_def given_def put_if_given_def put_clamped_eq)

lemma put_item_eq:
  "put_item p k (PTuple xs) n lo hi =
     (if n < length xs then put_clamped p k (xs ! n) lo hi else Inl IndexError)"
  by (simp add: put_item_def)

lemma all_take_5:
  assumes "3 \<le> length xs"
  shows "list_all P (take 5 xs) \<longleftrightarrow>
     P (xs ! 0) \<and> P (xs ! 1) \<and> P (xs ! 2) \<and> (3 < length xs \<longrightarrow> P (xs ! 3))
     \<and> (4 < length xs \<longrightarrow> P (xs ! 4))"
proof
  assume l: "list_all P (take 5 xs)"
  then have h: "i < length xs \<Longrightarrow> i < 5 \<Longrightarrow> P (xs ! i)" for i
    by (simp add: list_all_length)
  have "xs \<noteq> []" using assms by auto
  with h [of 0] h [of 1] h [of 2] h [of 3] h [of 4] assms show "P (xs ! 0) \<and> P (xs ! 1) \<and> P (xs ! 2) \<and> (3 < length xs \<longrightarrow> P (xs ! 3))
     \<and> (4 < length xs \<longrightarrow> P (xs ! 4))"
    by auto
next
  assume r: "P (xs ! 0) \<and> P (xs ! 1) \<and> P (xs ! 2) \<and> (3 < length xs \<longrightarrow> P (xs ! 3))
     \<and> (4 < length xs \<longrightarrow> P (xs ! 4))"
  have "P (xs ! i)" if "i < length xs" "i < 5" for i
  proof -
    from that(2) consider "i = 0" | "i = 1" | "i = 2" | "i = 3" | "i = 4" by linarith
    then show ?thesis using r that(1) by cases auto
  qed
  then show "list_all P (take 5 xs)" by (simp add: list_all_length)
qed

lemma all_take_4:
  assumes "3 \<le> length xs"
  shows "list_all P (take 4 xs) \<longleftrightarrow>
     P (xs ! 0) \<and> P (xs ! 1) \<and> P (xs ! 2) \<and> (3 < length xs \<longrightarrow> P (xs ! 3))"
proof
  assume l: "list_all P (take 4 xs)"
  then have h: "i < length xs \<Longrightarrow> i < 4 \<Longrightarrow> P (xs ! i)" for i
    by (simp add: list_all_length)
  have "xs \<noteq> []" using assms by auto
  with h [of 0] h [of 1] h [of 2] h [of 3] assms show "P (xs ! 0) \<and> P (xs ! 1) \<and> P (xs ! 2) \<and> (3 < length xs \<longrightarrow> P (xs ! 3))"
    by auto
next
  assume r: "P (xs ! 0) \<and> P (xs ! 1) \<and> P (xs ! 2) \<and> (3 < length xs \<longrightarrow> P (xs ! 3))"
  have "P (xs ! i)" if "i < length xs" "i < 4" for i
  proof -
    from that(2) consider "i = 0" | "i = 1" | "i = 2" | "i = 3" by linarith
    then show ?thesis using r that(1) by cases auto
  qed
  then show "list_all P (take 4 xs)" by (simp add: list_all_length)
qed

lemma set_rgbww_outcome:
  "if length xs < 3 \<or> \<not> list_all isinstance_int (take 5 xs)
   then set_rgbww p (PTuple xs) = Inl WizLightInvalidParameter
   else (\<exists>p'. set_rgbww p (PTuple xs) = Inr p')"
proof (cases "length xs < 3")
  case True
  then show ?thesis by (simp add: set_rgbww_def)
next
  case False
  then have len: "3 \<le> length xs" by simp
  then have l: "0 < length xs" "1 < length xs" "2 < length xs" by linarith+
  show ?thesis
    using False l
    by (simp add: set_rgbww_def all_take_5 [OF len] put_item_eq put_clamped_eq)
qed

lemma set_rgbw_outcome:
  "if length xs < 3 \<or> \<not> list_all isinstance_int (take 4 xs)
   then set_rgbw p (PTuple xs) = Inl WizLightInvalidParameter
   else (\<exists>p'. set_rgbw p (PTuple xs) = Inr p')"
proof (cases "length xs < 3")
  case True
  then show ?thesis by (simp add: set_rgbw_def)
next
  case False
  then have len: "3 \<le> length xs" by simp
  then have l: "0 < length xs" "1 < length xs" "2 < length xs" by linarith+
  show ?thesis
    using False l
    by (simp add: set_rgbw_def all_take_4 [OF len] put_item_eq put_clamped_eq)
qed

lemma set_rgb_outcome:
  "if list_all isinstance_int ([x, y, z] @ given [ww, cw])
   then (\<exists>p'. then_do (put_clamped p ''r'' x 0 255) (\<lambda>p1.
        then_do (put_clamped p1 ''g'' y 0 255) (\<lambda>p2.
        then_do (put_clamped p2 ''b'' z 0 255) (\<lambda>p3.
        then_do (put_if_given p3 ''w'' ww 0 255) (\<lambda>p4.
        put_if_given p4 ''c'' cw 0 255)))) = Inr p')
   else then_do (put_clamped p ''r'' x 0 255) (\<lambda>p1.
        then_do (put_clamped p1 ''g'' y 0 255) (\<lambda>p2.
        then_do (put_clamped p2 ''b'' z 0 255) (\<lambda>p3.
        then_do (put_if_given p3 ''w'' ww 0 255) (\<lambda>p4.
        put_if_given p4 ''c'' cw 0 255)))) = Inl WizLightInvalidParameter"
  by (simp add: given_def put_if_given_def put_clamped_eq)


lemma set_mode_outcome:
  assumes wt: "well_typed a"
  shows "if (selected_mode a = SceneMode \<and> scene_unknown (scene a)) \<or> tuple_too_short a
            \<or> \<not> list_all isinstance_int (used_by_mode a)
         then set_mode a p = Inl WizLightInvalidParameter
         else (\<exists>p'. set_mode a p = Inr p')"
proof (cases "selected_mode a")
  case SceneMode
  then have sel: "scene a \<noteq> PNone" by (auto simp: selected_mode_def split: if_splits)
  from wt SceneMode have "is_int_or_str (scene a)" by (simp add: well_typed_def)
  from resolve_scene_outcome [OF this] sel SceneMode show ?thesis
    by (auto simp: set_mode_def tuple_too_short_def used_by_mode_def split: if_splits)
next
  case RgbwwMode
  then have sel: "scene a = PNone" "rgbww a \<noteq> PNone"
    by (auto simp: selected_mode_def split: if_splits)
  from wt RgbwwMode obtain xs where xs: "rgbww a = PTuple xs"
    by (cases "rgbww a") (simp_all add: well_typed_def is_tuple_def)
  from set_rgbww_outcome [of xs p] sel xs RgbwwMode show ?thesis
    by (simp add: set_mode_def tuple_too_short_def used_by_mode_def items_def split: if_splits)
next
  case RgbwMode
  then have sel: "scene a = PNone" "rgbww a = PNone" "rgbw a \<noteq> PNone"
    by (auto simp: selected_mode_def split: if_splits)
  from wt RgbwMode obtain xs where xs: "rgbw a = PTuple xs"
    by (cases "rgbw a") (simp_all add: well_typed_def is_tuple_def)
  from set_rgbw_outcome [of xs p] sel xs RgbwMode show ?thesis
    by (simp add: set_mode_def tuple_too_short_def used_by_mode_def items_def split: if_splits)
next
  case RgbMode
  then have sel: "scene a = PNone" "rgbww a = PNone" "rgbw a = PNone"
    "r a \<noteq> PNone \<or> g a \<noteq> PNone \<or> b a \<noteq> PNone"
    by (auto simp: selected_mode_def split: if_splits)
  from set_rgb_outcome [of "py_or (r a) (PInt 0)" "py_or (g a) (PInt 0)" "py_or (b a) (PInt 0)"
      "warm_white a" "cold_white a" p] sel RgbMode
  show ?thesis
    by (simp add: set_mode_def tuple_too_short_def used_by_mode_def split: if_splits)
next
  case TempMode
  then have sel: "scene a = PNone" "rgbww a = PNone" "rgbw a = PNone"
    "r a = PNone" "g a = PNone" "b a = PNone" "colortemp a \<noteq> PNone"
    by (auto simp: selected_mode_def split: if_splits)
  with TempMode show ?thesis
    by (simp add: set_mode_def tuple_too_short_def used_by_mode_def put_clamped_eq)
next
  case NoMode
  then have sel: "scene a = PNone" "rgbww a = PNone" "rgbw a = PNone"
    "r a = PNone" "g a = PNone" "b a = PNone" "colortemp a = PNone"
    by (auto simp: selected_mode_def split: if_splits)
  with NoMode show ?thesis
    by (simp add: set_mode_def tuple_too_short_def used_by_mode_def)
qed

lemma PilotBuilder_outcome:
  assumes "state a" and "well_typed a"
  shows "if invalid_args a then PilotBuilder a = Inl WizLightInvalidParameter
         else (\<exists>p. PilotBuilder a = Inr p)"
proof (cases "(selected_mode a = SceneMode \<and> scene_unknown (scene a)) \<or> tuple_too_short a
            \<or> \<not> list_all isinstance_int (used_by_mode a)")
  case True
  with set_mode_outcome [OF assms(2), of "[''state'' \<mapsto> PBool (state a)]"]
  have "set_mode a [''state'' \<mapsto> PBool (state a)] = Inl WizLightInvalidParameter"
    by simp
  moreover from True have "invalid_args a" by (auto simp: invalid_args_def)
  ultimately show ?thesis using assms(1) by (simp add: PilotBuilder_def)
next
  case False
  with set_mode_outcome [OF assms(2), of "[''state'' \<mapsto> PBool (state a)]"]
  obtain p1 where m: "set_mode a [''state'' \<mapsto> PBool (state a)] = Inr p1"
    by auto
  from False have inv: "invalid_args a \<longleftrightarrow> \<not> list_all isinstance_int (used_common a)"
    by (auto simp: invalid_args_def)
  from set_common_outcome [of a p1] m assms(1) inv show ?thesis
    by (simp add: PilotBuilder_def split: if_splits)
qed

lemma py_or_int_iff:
  "v = PNone \<or> isinstance_int v \<or> truthy v \<Longrightarrow>
     isinstance_int (py_or v (PInt 0)) \<longleftrightarrow> (v = PNone \<or> isinstance_int v)"
  by (cases v) (auto simp: py_or_def)

lemma claimed_invalid_eq:
  assumes "plain_rgb a"
  shows "claimed_invalid a = invalid_args a"
proof (cases "selected_mode a = RgbMode")
  case True
  with assms have p: "r a = PNone \<or> isinstance_int (r a) \<or> truthy (r a)"
    "g a = PNone \<or> isinstance_int (g a) \<or> truthy (g a)"
    "b a = PNone \<or> isinstance_int (b a) \<or> truthy (b a)"
    by (simp_all add: plain_rgb_def)
  have "list_all isinstance_int (claimed_used_by_mode a)
      = list_all isinstance_int (used_by_mode a)"
    using True
    by (auto simp: claimed_used_by_mode_def used_by_mode_def given_def
        py_or_int_iff [OF p(1)] py_or_int_iff [OF p(2)] py_or_int_iff [OF p(3)])
  then show ?thesis by (simp add: claimed_invalid_def invalid_args_def)
next
  case False
  then have "claimed_used_by_mode a = used_by_mode a"
    by (cases "selected_mode a") (simp_all add: claimed_used_by_mode_def used_by_mode_def)
  then show ?thesis by (simp add: claimed_invalid_def invalid_args_def)
qed


text \<open>
  Where the selected scene is an int or a str, the selected tuple is a tuple and no bare
  r, g or b is a falsy non-integer, the constructor raises invalid-parameter exactly when
  the scene is unknown, the selected tuple is too short or a used numeric parameter is not
  an integer, and succeeds otherwise.
\<close>

lemma invalid_parameter_elsewhere:
  assumes "state a" and "well_typed a" and "plain_rgb a"
  shows "(PilotBuilder a = Inl WizLightInvalidParameter \<longleftrightarrow> claimed_invalid a)
     \<and> (\<not> claimed_invalid a \<longrightarrow> (\<exists>p. PilotBuilder a = Inr p))"
  using PilotBuilder_outcome [OF assms(1,2)] claimed_invalid_eq [OF assms(3)]
  by (auto split: if_splits)



lemma invalid_parameter_elsewhere_example:
  "state (default_args\<lparr>rgbw := PTuple [PInt 1, PInt 2]\<rparr>)
   \<and> well_typed (default_args\<lparr>rgbw := PTuple [PInt 1, PInt 2]\<rparr>)
   \<and> plain_rgb (default_args\<lparr>rgbw := PTuple [PInt 1, PInt 2]\<rparr>)
   \<and> claimed_invalid (default_args\<lparr>rgbw := PTuple [PInt 1, PInt 2]\<rparr>)
   \<and> PilotBuilder (default_args\<lparr>rgbw := PTuple [PInt 1, PInt 2]\<rparr>)
     = Inl WizLightInvalidParameter
   \<and> state (default_args\<lparr>r := PInt 0, brightness := PInt 7\<rparr>)
   \<and> well_typed (default_args\<lparr>r := PInt 0, brightness := PInt 7\<rparr>)
   \<and> plain_rgb (default_args\<lparr>r := PInt 0, brightness := PInt 7\<rparr>)
   \<and> \<not> claimed_invalid (default_args\<lparr>r := PInt 0, brightness := PInt 7\<rparr>)
   \<and> (\<exists>p. PilotBuilder (default_args\<lparr>r := PInt 0, brightness := PInt 7\<rparr>) = Inr p)"
proof -
  let ?x = "default_args\<lparr>rgbw := PTuple [PInt 1, PInt 2]\<rparr>"
  let ?y = "default_args\<lparr>r := PInt 0, brightness := PInt 7\<rparr>"
  have x: "state ?x" "well_typed ?x" "plain_rgb ?x" "claimed_invalid ?x"
    by (simp_all add: default_args_def well_typed_def plain_rgb_def selected_mode_def
        is_tuple_def claimed_invalid_def tuple_too_short_def items_def)
  have y: "state ?y" "well_typed ?y" "plain_rgb ?y" "\<not> claimed_invalid ?y"
    by (simp_all add: default_args_def well_typed_def plain_rgb_def selected_mode_def
        claimed_invalid_def tuple_too_short_def claimed_used_by_mode_def used_common_def
        given_def)
  show ?thesis
    using invalid_parameter_elsewhere [OF x(1,2,3)] invalid_parameter_elsewhere [OF y(1,2,3)] x y
    by simp
qed

text \<open>
  C8. The code does not do what the claim says for a bare r, g or b that is a falsy
  non-integer. \<^verbatim>\<open>PilotBuilder(r=0.0)\<close> uses the numeric parameter \<open>r\<close>, which is
  not an integer, and yet does not raise: \<^verbatim>\<open>r or 0\<close> replaces the value by 0 before
  \<^verbatim>\<open>_clamp\<close> checks its type, and the params are \<open>state\<close>, \<open>r = 0\<close>, \<open>g = 0\<close>,
  \<open>b = 0\<close>. The same check rejects \<^verbatim>\<open>r=0.5\<close>, and rejects 0.0 as warm_white, as
  an item of rgbw, as colortemp and as brightness.
\<close>

theorem falsy_rgb_not_rejected:
  "state (default_args\<lparr>r := PFloat 0\<rparr>) \<and> well_typed (default_args\<lparr>r := PFloat 0\<rparr>)
   \<and> claimed_invalid (default_args\<lparr>r := PFloat 0\<rparr>)
   \<and> PilotBuilder (default_args\<lparr>r := PFloat 0\<rparr>)
     = Inr [''state'' \<mapsto> PBool True, ''r'' \<mapsto> PInt 0, ''g'' \<mapsto> PInt 0, ''b'' \<mapsto> PInt 0]
   \<and> PilotBuilder (default_args\<lparr>r := PFloat (1 / 2)\<rparr>) = Inl WizLightInvalidParameter
   \<and> PilotBuilder (default_args\<lparr>r := PInt 1, warm_white := PFloat 0\<rparr>)
     = Inl WizLightInvalidParameter
   \<and> PilotBuilder (default_args\<lparr>rgbw := PTuple [PFloat 0, PInt 0, PInt 0]\<rparr>)
     = Inl WizLightInvalidParameter
   \<and> PilotBuilder (default_args\<lparr>colortemp := PFloat 0\<rparr>) = Inl WizLightInvalidParameter
   \<and> PilotBuilder (default_args\<lparr>brightness := PFloat 0\<rparr>) = Inl WizLightInvalidParameter"
  by (simp add: default_args_def well_typed_def selected_mode_def claimed_invalid_def
      claimed_used_by_mode_def used_common_def given_def tuple_too_short_def
      PilotBuilder_def set_mode_def set_common_def set_rgbw_def put_item_def
      put_if_given_def put_clamped_def clamp_def py_or_def py_max_def py_min_def)

section \<open>Power consumption\<close>

text \<open>When \<open>pc\<close> is present and truthy, \<^verbatim>\<open>get_power\<close> is \<^verbatim>\<open>float\<close> of it.\<close>

lemma get_power_truthy_pc:
  "map_of result ''pc'' = Some v \<Longrightarrow> truthy v \<Longrightarrow>
     get_power sf result = then_do (py_float sf v) (\<lambda>f. Inr (Some f))"
  by (cases v) (auto simp: get_power_def dict_get_def py_or_def)

text \<open>
  C10. The code does not do what the claim says when \<open>pc\<close> is 0: \<^verbatim>\<open>x or y\<close> takes a
  zero for a missing value, so \<^verbatim>\<open>get_power\<close> of \<^verbatim>\<open>{"pc": 0, "w": 128}\<close> is the float
  of \<open>w\<close>, 128.0, and of \<^verbatim>\<open>{"pc": 0}\<close> it is None, where the claim says 0.0; with a
  non-zero \<open>pc\<close> the entry \<open>w\<close> is not consulted.
\<close>

theorem get_power_zero_pc:
  "get_power sf [(''pc'', PInt 0), (''w'', PInt 128)] = Inr (Some 128)
   \<and> get_power sf [(''pc'', PInt 0)] = Inr None
   \<and> get_power sf [(''pc'', PInt 5), (''w'', PInt 128)] = Inr (Some 5)"
  by (simp add: get_power_def dict_get_def py_or_def)

section \<open>Push dispatch\<close>

lemma lower_mac_upper: "lower ''AABBCCDDEEFF'' = ''aabbccddeeff''"
  by code_simp

lemma lower_mac_colons: "lower ''AA:BB:CC:DD:EE:FF'' = ''aa:bb:cc:dd:ee:ff''"
  by code_simp

lemma lower_mac_plain: "lower ''aabbccddeeff'' = ''aabbccddeeff''"
  by code_simp

lemma subscribe_plain:
  "subscribe Map.empty ''aabbccddeeff'' cb = ([''aabbccddeeff'' \<mapsto> [cb]], (''aabbccddeeff'', cb))"
  by (simp add: subscribe_def Let_def lower_mac_plain strip_char_def)

lemma subscribe_colons:
  "subscribe Map.empty ''AA:BB:CC:DD:EE:FF'' cb = ([''aabbccddeeff'' \<mapsto> [cb]], (''aabbccddeeff'', cb))"
  by (simp add: subscribe_def Let_def lower_mac_colons strip_char_def)

text \<open>
  C3. The code does not do what the claim says: \<^verbatim>\<open>_handle_sync_pilot\<close> only lowercases
  the MAC of the datagram, while \<^verbatim>\<open>subscribe\<close> also strips \<open>:\<close> and \<open>-\<close>. A callback
  subscribed under \<open>aabbccddeeff\<close> is not called for a syncPilot datagram whose MAC is
  \<open>AA:BB:CC:DD:EE:FF\<close>; it is called once, with a parser over the params, when the
  MAC is \<open>AABBCCDDEEFF\<close>; and subscribing under \<open>AA:BB:CC:DD:EE:FF\<close> registers the
  callback under \<open>aabbccddeeff\<close>.
\<close>

theorem sync_pilot_separators_kept:
  "on_message (fst (subscribe Map.empty ''aabbccddeeff'' cb))
      [(''method'', PStr ''syncPilot''),
       (''params'', PDict [(''mac'', PStr ''AA:BB:CC:DD:EE:FF''), (''state'', PBool True),
          (''dimming'', PInt 100)])] = Inr []
   \<and> on_message (fst (subscribe Map.empty ''aabbccddeeff'' cb))
      [(''method'', PStr ''syncPilot''),
       (''params'', PDict [(''mac'', PStr ''AABBCCDDEEFF''), (''state'', PBool True),
          (''dimming'', PInt 100)])]
     = Inr [(cb, PilotParser [(''mac'', PStr ''AABBCCDDEEFF''), (''state'', PBool True),
          (''dimming'', PInt 100)])]
   \<and> snd (subscribe Map.empty ''AA:BB:CC:DD:EE:FF'' cb) = (''aabbccddeeff'', cb)"
  by (simp add: on_message_def handle_sync_pilot_def dict_get_def callbacks_for_def Let_def
      subscribe_plain subscribe_colons lower_mac_upper lower_mac_colons)

section \<open>Unsubscribing twice\<close>

lemma count_list_remove1: "count_list (remove1 x l) x = count_list l x - 1"
  by (induction l) auto

lemma remove1_eq_iff: "remove1 x l = l \<longleftrightarrow> x \<notin> set l"
proof
  assume "remove1 x l = l"
  then have "length (remove1 x l) = length l" by simp
  then show "x \<notin> set l" by (auto simp: length_remove1 split: if_splits) (cases l; simp)
next
  assume "x \<notin> set l" then show "remove1 x l = l" by (rule remove1_idem)
qed

lemma in_set_count: "x \<in> set l \<longleftrightarrow> 0 < count_list l x"
  using count_list_0_iff [of l x] by auto

lemma unsubscribe_twice_iff:
  "unsubscribe (m, cb) (unsubscribe (m, cb) subs) = unsubscribe (m, cb) subs
     \<longleftrightarrow> count_list (callbacks_for subs m) cb \<le> 1"
proof (cases "subs m")
  case None
  then show ?thesis by (simp add: unsubscribe_def callbacks_for_def)
next
  case (Some l)
  have c: "cb \<in> set (remove1 cb l) \<longleftrightarrow> \<not> count_list l cb \<le> 1"
    by (auto simp: in_set_count count_list_remove1)
  show ?thesis
  proof (cases "remove1 cb l = []")
    case True
    then have "cb \<notin> set (remove1 cb l)" by simp
    with c True Some show ?thesis
      by (simp add: unsubscribe_def callbacks_for_def)
  next
    case False
    have "(subs(m \<mapsto> remove1 cb l)) = unsubscribe (m, cb) subs"
      using False Some by (simp add: unsubscribe_def)
    moreover have "unsubscribe (m, cb) (subs(m \<mapsto> remove1 cb l)) = subs(m \<mapsto> remove1 cb l)
        \<longleftrightarrow> cb \<notin> set (remove1 cb l)"
    proof (cases "remove1 cb (remove1 cb l) = []")
      case True
      with False have "cb \<in> set (remove1 cb l)"
        by (metis remove1_idem)
      moreover have "(subs(m := None)) \<noteq> (subs(m \<mapsto> remove1 cb l))"
        by (metis fun_upd_same option.distinct(1))
      ultimately show ?thesis using True by (simp add: unsubscribe_def)
    next
      case False
      have "(subs(m \<mapsto> remove1 cb (remove1 cb l)) = subs(m \<mapsto> remove1 cb l))
          \<longleftrightarrow> remove1 cb (remove1 cb l) = remove1 cb l"
        by (metis fun_upd_same option.inject)
      with False show ?thesis by (simp add: unsubscribe_def remove1_eq_iff)
    qed
    ultimately show ?thesis using c Some by (simp add: callbacks_for_def)
  qed
qed


lemma snd_subscribe: "snd (subscribe subs mac cb) = snd (subscribe Map.empty mac cb)"
  by (simp add: subscribe_def Let_def)

lemma callbacks_for_subscribe:
  "callbacks_for (fst (subscribe subs mac cb)) k =
     callbacks_for subs k @ (if fst (snd (subscribe Map.empty mac cb)) = k then [cb] else [])"
  by (auto simp: subscribe_def Let_def callbacks_for_def split: option.splits)

lemma callbacks_for_subscribe_all:
  "callbacks_for (subscribe_all subs calls) k =
     callbacks_for subs k
     @ map snd (filter (\<lambda>(m, c). fst (snd (subscribe Map.empty m c)) = k) calls)"
proof (induction calls arbitrary: subs)
  case Nil
  then show ?case by simp
next
  case (Cons call calls)
  obtain m c where call: "call = (m, c)" by (cases call)
  show ?case
    unfolding call by (simp add: Cons.IH callbacks_for_subscribe)
qed

lemma snd_snd_subscribe: "snd (snd (subscribe subs mac cb)) = cb"
  by (simp add: subscribe_def Let_def)

lemma count_disposers:
  "count_list (map snd (filter (\<lambda>(m, c). fst (snd (subscribe Map.empty m c)) = k) calls)) cb
     = count_list (map (\<lambda>(m, c). snd (subscribe Map.empty m c)) calls) (k, cb)"
proof (induction calls)
  case Nil
  then show ?case by simp
next
  case (Cons call calls)
  obtain m c where call: "call = (m, c)" by (cases call)
  have "snd (subscribe Map.empty m c) = (k, cb)
      \<longleftrightarrow> fst (snd (subscribe Map.empty m c)) = k \<and> c = cb"
    using snd_snd_subscribe [of Map.empty m c]
    by (cases "snd (subscribe Map.empty m c)") auto
  then show ?case
    unfolding call using Cons.IH by auto
qed

lemma remove1_first:
  "remove1 x l = takeWhile (\<lambda>c. c \<noteq> x) l @ drop 1 (dropWhile (\<lambda>c. c \<noteq> x) l)"
  by (induction l) auto

lemma unsubscribe_entry:
  "unsubscribe (m, cb) subs m =
     (if remove1 cb (callbacks_for subs m) = [] then None
      else Some (remove1 cb (callbacks_for subs m)))"
  by (cases "subs m") (simp_all add: unsubscribe_def callbacks_for_def Let_def)

lemma unsubscribe_callbacks:
  "callbacks_for (unsubscribe (m, cb) subs) m = remove1 cb (callbacks_for subs m)"
  by (simp add: callbacks_for_def [of "unsubscribe (m, cb) subs"] unsubscribe_entry)

lemma unsubscribe_others: "(unsubscribe (m, cb) subs)(m := None) = subs(m := None)"
  by (cases "subs m") (auto simp: unsubscribe_def Let_def)

text \<open>
  C9, as stated, fails: when the same callback is subscribed twice under one MAC, the
  second call of a disposer removes the second occurrence, and with it the entry.
\<close>

theorem unsubscribe_twice_counterexample:
  "unsubscribe (snd (subscribe Map.empty ''aabbccddeeff'' ''cb''))
     (unsubscribe (snd (subscribe Map.empty ''aabbccddeeff'' ''cb''))
        (subscribe_all Map.empty [(''aabbccddeeff'', ''cb''), (''aabbccddeeff'', ''cb'')]))
   \<noteq> unsubscribe (snd (subscribe Map.empty ''aabbccddeeff'' ''cb''))
        (subscribe_all Map.empty [(''aabbccddeeff'', ''cb''), (''aabbccddeeff'', ''cb'')])"
proof -
  have s: "subscribe_all Map.empty [(''aabbccddeeff'', ''cb''), (''aabbccddeeff'', ''cb'')]
      = [''aabbccddeeff'' \<mapsto> [''cb'', ''cb'']]"
    by (simp add: subscribe_plain) (simp add: subscribe_def Let_def lower_mac_plain strip_char_def)
  have once: "unsubscribe (''aabbccddeeff'', ''cb'') [''aabbccddeeff'' \<mapsto> [''cb'', ''cb'']]
      = [''aabbccddeeff'' \<mapsto> [''cb'']]"
    by (simp add: unsubscribe_def)
  have twice: "unsubscribe (''aabbccddeeff'', ''cb'') [''aabbccddeeff'' \<mapsto> [''cb'']]
      = Map.empty"
    by (simp add: unsubscribe_def)
  have "[''aabbccddeeff'' \<mapsto> [''cb'']] \<noteq> (Map.empty :: string \<rightharpoonup> string list)"
    by simp
  then have "(Map.empty :: string \<rightharpoonup> string list) \<noteq> [''aabbccddeeff'' \<mapsto> [''cb'']]"
    by (rule not_sym)
  then show ?thesis
    unfolding s by (simp add: subscribe_plain once twice)
qed


text \<open>
  C9, amended. Calling a disposer removes the first occurrence of its callback from the
  list under its MAC (and nothing if the callback does not occur there), deletes the MAC
  entry when the resulting list is empty, and leaves every other MAC as it was. Calling it
  a second time leaves the registry as it was after the first call if and only if the
  callback occurs at most once under the disposer's MAC when the disposer is first
  called; in the registry reached by a sequence of subscribe calls that is: at most one of
  the calls has this (normalized) MAC and this callback.
\<close>

theorem unsubscribe_twice:
  "callbacks_for (unsubscribe (m, cb) subs) m
     = takeWhile (\<lambda>c. c \<noteq> cb) (callbacks_for subs m)
       @ drop 1 (dropWhile (\<lambda>c. c \<noteq> cb) (callbacks_for subs m))
   \<and> unsubscribe (m, cb) subs m
     = (if callbacks_for (unsubscribe (m, cb) subs) m = [] then None
        else Some (callbacks_for (unsubscribe (m, cb) subs) m))
   \<and> (unsubscribe (m, cb) subs)(m := None) = subs(m := None)
   \<and> (unsubscribe (m, cb) (unsubscribe (m, cb) subs) = unsubscribe (m, cb) subs
      \<longleftrightarrow> count_list (callbacks_for subs m) cb \<le> 1)
   \<and> (unsubscribe (snd (subscribe subs0 mac cb))
         (unsubscribe (snd (subscribe subs0 mac cb)) (subscribe_all Map.empty calls))
       = unsubscribe (snd (subscribe subs0 mac cb)) (subscribe_all Map.empty calls)
      \<longleftrightarrow> count_list (map (\<lambda>(m, c). snd (subscribe Map.empty m c)) calls)
            (snd (subscribe subs0 mac cb)) \<le> 1)"
proof -
  obtain k where d: "snd (subscribe subs0 mac cb) = (k, cb)"
    using snd_snd_subscribe [of subs0 mac cb] by (cases "snd (subscribe subs0 mac cb)") auto
  have e: "callbacks_for (Map.empty :: 'a subscribers) k = []"
    by (simp add: callbacks_for_def)
  have "count_list (callbacks_for (subscribe_all Map.empty calls) k) cb
      = count_list (map (\<lambda>(m, c). snd (subscribe Map.empty m c)) calls) (k, cb)"
    by (simp add: callbacks_for_subscribe_all e count_disposers)
  then have seqs: "unsubscribe (snd (subscribe subs0 mac cb))
         (unsubscribe (snd (subscribe subs0 mac cb)) (subscribe_all Map.empty calls))
       = unsubscribe (snd (subscribe subs0 mac cb)) (subscribe_all Map.empty calls)
      \<longleftrightarrow> count_list (map (\<lambda>(m, c). snd (subscribe Map.empty m c)) calls)
            (snd (subscribe subs0 mac cb)) \<le> 1"
    unfolding d by (simp add: unsubscribe_twice_iff)
  have first: "callbacks_for (unsubscribe (m, cb) subs) m
     = takeWhile (\<lambda>c. c \<noteq> cb) (callbacks_for subs m)
       @ drop 1 (dropWhile (\<lambda>c. c \<noteq> cb) (callbacks_for subs m))"
    unfolding unsubscribe_callbacks by (rule remove1_first)
  have entry: "unsubscribe (m, cb) subs m
     = (if callbacks_for (unsubscribe (m, cb) subs) m = [] then None
        else Some (callbacks_for (unsubscribe (m, cb) subs) m))"
    unfolding unsubscribe_callbacks by (rule unsubscribe_entry)
  from first entry unsubscribe_others [of m cb subs] unsubscribe_twice_iff [of m cb subs] seqs
  show ?thesis by blast
qed

theorem unsubscribe_twice_witness:
  "count_list (map (\<lambda>(m, c). snd (subscribe Map.empty m c))
       [(''AA:BB:CC:DD:EE:FF'', ''first''), (''aabbccddeeff'', ''second'')])
     (snd (subscribe Map.empty ''aabbccddeeff'' ''first'')) \<le> 1
   \<and> unsubscribe (snd (subscribe Map.empty ''aabbccddeeff'' ''first''))
       (unsubscribe (snd (subscribe Map.empty ''aabbccddeeff'' ''first''))
          (subscribe_all Map.empty
             [(''AA:BB:CC:DD:EE:FF'', ''first''), (''aabbccddeeff'', ''second'')]))
     = unsubscribe (snd (subscribe Map.empty ''aabbccddeeff'' ''first''))
         (subscribe_all Map.empty
            [(''AA:BB:CC:DD:EE:FF'', ''first''), (''aabbccddeeff'', ''second'')])
   \<and> callbacks_for (unsubscribe (''aabbccddeeff'', ''cb'')
         [''aabbccddeeff'' \<mapsto> [''other'', ''cb'', ''cb'']]) ''aabbccddeeff''
     = [''other'', ''cb'']
   \<and> unsubscribe (''aabbccddeeff'', ''cb'') [''aabbccddeeff'' \<mapsto> [''cb'']] ''aabbccddeeff''
     = None"
proof -
  have c: "count_list (map (\<lambda>(m, c). snd (subscribe Map.empty m c))
       [(''AA:BB:CC:DD:EE:FF'', ''first''), (''aabbccddeeff'', ''second'')])
     (snd (subscribe Map.empty ''aabbccddeeff'' ''first'')) \<le> 1"
    by (simp add: subscribe_plain subscribe_colons)
  from c unsubscribe_twice [of "''aabbccddeeff''" "''first''" Map.empty Map.empty
      "''aabbccddeeff''"
      "[(''AA:BB:CC:DD:EE:FF'', ''first''), (''aabbccddeeff'', ''second'')]"]
  have idem: "unsubscribe (snd (subscribe Map.empty ''aabbccddeeff'' ''first''))
       (unsubscribe (snd (subscribe Map.empty ''aabbccddeeff'' ''first''))
          (subscribe_all Map.empty
             [(''AA:BB:CC:DD:EE:FF'', ''first''), (''aabbccddeeff'', ''second'')]))
     = unsubscribe (snd (subscribe Map.empty ''aabbccddeeff'' ''first''))
         (subscribe_all Map.empty
            [(''AA:BB:CC:DD:EE:FF'', ''first''), (''aabbccddeeff'', ''second'')])"
    by blast
  have l3: "callbacks_for [''aabbccddeeff'' \<mapsto> [''other'', ''cb'', ''cb'']] ''aabbccddeeff''
      = [''other'', ''cb'', ''cb'']"
    and l1: "callbacks_for [''aabbccddeeff'' \<mapsto> [''cb'']] ''aabbccddeeff'' = [''cb'']"
    by (simp_all add: callbacks_for_def)
  from unsubscribe_twice [of "''aabbccddeeff''" "''cb''"
      "[''aabbccddeeff'' \<mapsto> [''other'', ''cb'', ''cb'']]" Map.empty "''x''" "[]"]
  have first: "callbacks_for (unsubscribe (''aabbccddeeff'', ''cb'')
         [''aabbccddeeff'' \<mapsto> [''other'', ''cb'', ''cb'']]) ''aabbccddeeff''
     = [''other'', ''cb'']"
    unfolding l3 by simp
  from unsubscribe_twice [of "''aabbccddeeff''" "''cb''"
      "[''aabbccddeeff'' \<mapsto> [''cb'']]" Map.empty "''x''" "[]"]
  have gone: "unsubscribe (''aabbccddeeff'', ''cb'') [''aabbccddeeff'' \<mapsto> [''cb'']]
      ''aabbccddeeff'' = None"
    unfolding l1 by simp
  from c idem first gone show ?thesis by blast
qed

section \<open>Retries\<close>

lemma attempts_snoc_send: "attempts (evs @ [SendOnce t]) = Suc (attempts evs)"
  by (simp add: attempts_def)

lemma attempts_snoc_sleep: "attempts (evs @ [Sleep d]) = attempts evs"
  by (simp add: attempts_def)

lemma retried_D: "retried oc \<Longrightarrow> \<exists>e. oc = Raises e \<and> retryable e"
  by (cases oc) (simp_all add: retried_def)

lemma has_error_D: "has_error oc \<Longrightarrow> \<exists>resp. oc = Returns resp \<and> map_of resp ''error'' \<noteq> None"
  by (cases oc) (simp_all add: has_error_def)

lemma send_loop_exhausted:
  assumes "\<forall>j<length ds. retried (tr (n + j))"
  shows "fst (send_loop tr t ds n exc evs)
       = Inl (WizLightTimeOutError (if ds = [] then exc else raised (tr (n + length ds - 1))))
     \<and> attempts (snd (send_loop tr t ds n exc evs)) = attempts evs + length ds"
  using assms
proof (induction ds arbitrary: n exc evs)
  case Nil
  then show ?case by simp
next
  case (Cons d ds)
  from Cons.prems have "retried (tr (n + 0))" by (metis length_greater_0_conv list.discI)
  then obtain e where e: "tr n = Raises e" "retryable e"
    using retried_D [of "tr n"] by auto
  have rest: "\<forall>j<length ds. retried (tr (Suc n + j))"
  proof (intro allI impI)
    fix j assume "j < length ds"
    then have "Suc j < length (d # ds)" by simp
    with Cons.prems have "retried (tr (n + Suc j))" by blast
    then show "retried (tr (Suc n + j))" by simp
  qed
  let ?evs2 = "(if d > 0 then evs @ [Sleep d] else evs) @ [SendOnce (min t 3)]"
  have step: "send_loop tr t (d # ds) n exc evs = send_loop tr t ds (Suc n) (Some e) ?evs2"
    using e by (simp add: Let_def)
  have a2: "attempts ?evs2 = Suc (attempts evs)"
    by (simp add: attempts_snoc_send attempts_snoc_sleep)
  have cause: "(if ds = [] then Some e else raised (tr (Suc n + length ds - 1)))
      = raised (tr (n + length (d # ds) - 1))"
    using e by (simp add: raised_def)
  show ?case
    unfolding step using Cons.IH [OF rest, of "Some e" ?evs2] a2 cause by simp
qed

lemma send_loop_command_error:
  assumes "k < length ds" and "\<forall>j<k. retried (tr (n + j))" and "has_error (tr (n + k))"
  shows "fst (send_loop tr t ds n exc evs) = Inl WizLightCommandError
     \<and> attempts (snd (send_loop tr t ds n exc evs)) = attempts evs + Suc k"
  using assms
proof (induction ds arbitrary: k n exc evs)
  case Nil
  then show ?case by simp
next
  case (Cons d ds)
  let ?evs2 = "(if d > 0 then evs @ [Sleep d] else evs) @ [SendOnce (min t 3)]"
  have a2: "attempts ?evs2 = Suc (attempts evs)"
    by (simp add: attempts_snoc_send attempts_snoc_sleep)
  show ?case
  proof (cases k)
    case 0
    with Cons.prems obtain resp where "tr n = Returns resp" "map_of resp ''error'' \<noteq> None"
      using has_error_D [of "tr n"] by auto
    then have "send_loop tr t (d # ds) n exc evs = (Inl WizLightCommandError, ?evs2)"
      by (simp add: Let_def)
    with a2 0 show ?thesis by simp
  next
    case (Suc k')
    with Cons.prems have "retried (tr (n + 0))" by blast
    then obtain e where e: "tr n = Raises e" "retryable e"
      using retried_D [of "tr n"] by auto
    have step: "send_loop tr t (d # ds) n exc evs = send_loop tr t ds (Suc n) (Some e) ?evs2"
      using e by (simp add: Let_def)
    have k': "k' < length ds" using Cons.prems Suc by simp
    have rest: "\<forall>j<k'. retried (tr (Suc n + j))"
    proof (intro allI impI)
      fix j assume "j < k'"
      then have "Suc j < k" using Suc by simp
      with Cons.prems have "retried (tr (n + Suc j))" by blast
      then show "retried (tr (Suc n + j))" by simp
    qed
    have err: "has_error (tr (Suc n + k'))" using Cons.prems Suc by simp
    show ?thesis
      unfolding step using Cons.IH [OF k' rest err, of "Some e" ?evs2] a2 Suc by simp
  qed
qed

text \<open>
  C2. The client built without \<^verbatim>\<open>retry_delays\<close> walks the schedule 0, 0.5, 1.5, 3, 6.
  If attempt \<open>k\<close> (counted from 0) is the first that does not end in a timeout or a
  connection error, and its response mapping has the key \<open>error\<close>, \<^verbatim>\<open>send\<close> raises
  command-error after exactly \<open>k + 1\<close> attempts. If all five attempts end in a timeout
  or a connection error, \<^verbatim>\<open>send\<close> raises timeout-error after exactly five attempts,
  chained from the exception of the last one.
\<close>

theorem send_failure_classes:
  "UDPClient None = [0, 1 / 2, 3 / 2, 3, 6]
   \<and> (k < 5 \<and> (\<forall>j<k. retried (transport j)) \<and> has_error (transport k) \<longrightarrow>
        fst (send (UDPClient None) transport timeout) = Inl WizLightCommandError
        \<and> attempts (snd (send (UDPClient None) transport timeout)) = Suc k)
   \<and> ((\<forall>j<5. retried (transport j)) \<longrightarrow>
        fst (send (UDPClient None) transport timeout)
          = Inl (WizLightTimeOutError (raised (transport 4)))
        \<and> attempts (snd (send (UDPClient None) transport timeout)) = 5)"
proof (intro conjI impI)
  show "UDPClient None = [0, 1 / 2, 3 / 2, 3, 6]"
    by (simp add: UDPClient_def RETRY_DELAYS_def)
next
  assume h: "k < 5 \<and> (\<forall>j<k. retried (transport j)) \<and> has_error (transport k)"
  have len: "length (UDPClient None) = 5" by (simp add: UDPClient_def RETRY_DELAYS_def)
  from h have "k < length (UDPClient None)" "\<forall>j<k. retried (transport (0 + j))"
    "has_error (transport (0 + k))"
    using len by simp_all
  from send_loop_command_error [OF this, of timeout None "[]"]
  show "fst (send (UDPClient None) transport timeout) = Inl WizLightCommandError"
    and "attempts (snd (send (UDPClient None) transport timeout)) = Suc k"
    by (simp_all add: send_def attempts_def)
next
  assume h: "\<forall>j<5. retried (transport j)"
  have len: "length (UDPClient None) = 5" by (simp add: UDPClient_def RETRY_DELAYS_def)
  have ne: "UDPClient None \<noteq> []" using len by auto
  from h have "\<forall>j<length (UDPClient None). retried (transport (0 + j))"
    using len by simp
  from send_loop_exhausted [OF this, of timeout None "[]"] ne len
  show "fst (send (UDPClient None) transport timeout)
          = Inl (WizLightTimeOutError (raised (transport 4)))"
    and "attempts (snd (send (UDPClient None) transport timeout)) = 5"
    by (simp_all add: send_def attempts_def)
qed

theorem send_failure_classes_witness:
  "(2::nat) < 5
   \<and> retried ((\<lambda>n::nat. if n < 2 then Raises (TimeoutError ''No response'')
                 else Returns [(''method'', PStr ''setPilot''), (''error'', PInt 1)]) 0)
   \<and> retried ((\<lambda>n::nat. if n < 2 then Raises (TimeoutError ''No response'')
                 else Returns [(''method'', PStr ''setPilot''), (''error'', PInt 1)]) 1)
   \<and> has_error ((\<lambda>n::nat. if n < 2 then Raises (TimeoutError ''No response'')
                 else Returns [(''method'', PStr ''setPilot''), (''error'', PInt 1)]) (2::nat))
   \<and> fst (send (UDPClient None)
        (\<lambda>n::nat. if n < 2 then Raises (TimeoutError ''No response'')
              else Returns [(''method'', PStr ''setPilot''), (''error'', PInt 1)]) TOTAL_TIMEOUT)
     = Inl WizLightCommandError
   \<and> attempts (snd (send (UDPClient None)
        (\<lambda>n::nat. if n < 2 then Raises (TimeoutError ''No response'')
              else Returns [(''method'', PStr ''setPilot''), (''error'', PInt 1)]) TOTAL_TIMEOUT))
     = 3
   \<and> retried ((\<lambda>n::nat. if n < 4 then Raises (TimeoutError ''No response'')
                 else Raises (WizLightConnectionError ''UDP error'')) 0)
   \<and> retried ((\<lambda>n::nat. if n < 4 then Raises (TimeoutError ''No response'')
                 else Raises (WizLightConnectionError ''UDP error'')) 4)
   \<and> fst (send (UDPClient None)
        (\<lambda>n::nat. if n < 4 then Raises (TimeoutError ''No response'')
              else Raises (WizLightConnectionError ''UDP error'')) TOTAL_TIMEOUT)
     = Inl (WizLightTimeOutError (Some (WizLightConnectionError ''UDP error'')))
   \<and> attempts (snd (send (UDPClient None)
        (\<lambda>n::nat. if n < 4 then Raises (TimeoutError ''No response'')
              else Raises (WizLightConnectionError ''UDP error'')) TOTAL_TIMEOUT))
     = 5"
proof -
  let ?t1 = "\<lambda>n::nat. if n < 2 then Raises (TimeoutError ''No response'')
                 else Returns [(''method'', PStr ''setPilot''), (''error'', PInt 1)]"
  let ?t2 = "\<lambda>n::nat. if n < 4 then Raises (TimeoutError ''No response'')
                 else Raises (WizLightConnectionError ''UDP error'')"
  have h1: "(2::nat) < 5 \<and> (\<forall>j<2. retried (?t1 j)) \<and> has_error (?t1 2)"
    by (simp add: retried_def has_error_def)
  have h2: "\<forall>j<5. retried (?t2 j)"
    by (simp add: retried_def)
  have r: "raised (?t2 4) = Some (WizLightConnectionError ''UDP error'')"
    by (simp add: raised_def)
  from send_failure_classes [of 2 ?t1 TOTAL_TIMEOUT] h1
  have c1': "fst (send (UDPClient None) ?t1 TOTAL_TIMEOUT) = Inl WizLightCommandError
      \<and> attempts (snd (send (UDPClient None) ?t1 TOTAL_TIMEOUT)) = Suc 2"
    by blast
  then have c1: "fst (send (UDPClient None) ?t1 TOTAL_TIMEOUT) = Inl WizLightCommandError
      \<and> attempts (snd (send (UDPClient None) ?t1 TOTAL_TIMEOUT)) = 3"
    by (simp only: Suc_numeral) simp
  from send_failure_classes [of 0 ?t2 TOTAL_TIMEOUT] h2
  have c2': "fst (send (UDPClient None) ?t2 TOTAL_TIMEOUT)
        = Inl (WizLightTimeOutError (raised (?t2 4)))
      \<and> attempts (snd (send (UDPClient None) ?t2 TOTAL_TIMEOUT)) = 5"
    by blast
  have c2: "fst (send (UDPClient None) ?t2 TOTAL_TIMEOUT)
        = Inl (WizLightTimeOutError (Some (WizLightConnectionError ''UDP error'')))
      \<and> attempts (snd (send (UDPClient None) ?t2 TOTAL_TIMEOUT)) = 5"
    using c2' unfolding r .
  have r1: "retried (?t1 0)" "retried (?t1 1)" "retried (?t2 0)" "retried (?t2 4)"
    by (simp_all add: retried_def)
  from h1 r1 c1 c2 show ?thesis by blast
qed

section \<open>Device types\<close>

lemma white_channels_mk [simp]: "white_channels (mk_BulbType cls nm fs kelvin) = 1"
  by (simp add: mk_BulbType_def)

lemma scan_patterns_white_channels:
  "scan_patterns ps nm up wr = Some bt \<Longrightarrow> white_channels bt = 1"
  by (induction ps nm up wr rule: scan_patterns.induct) (auto split: if_splits)

lemma detect_white_channels: "white_channels (detect_bulb_type nm wr) = 1"
  by (auto simp: detect_bulb_type_def Let_def dest: scan_patterns_white_channels
      split: option.splits)

lemma upper_shrgb3: "upper ''ESP01_SHRGB3_01ABI'' = ''ESP01_SHRGB3_01ABI''"
  by code_simp

lemma no_rgbw_shrgb3:
  "\<not> str_contains ''RGBW'' ''ESP01_SHRGB3_01ABI'' \<and> \<not> str_contains ''RGBWW'' ''ESP01_SHRGB3_01ABI''"
  by simp

text \<open>
  C4, as stated, fails: \<open>ESP01_SHRGB3_01ABI\<close> contains neither \<open>RGBW\<close> nor
  \<open>RGBWW\<close>, and its descriptor has \<open>white_channels = 1\<close>, the default of the
  dataclass, which nothing sets to 0.
\<close>

theorem white_channels_counterexample:
  "\<not> str_contains ''RGBW'' (upper ''ESP01_SHRGB3_01ABI'')
   \<and> \<not> str_contains ''RGBWW'' (upper ''ESP01_SHRGB3_01ABI'')
   \<and> white_channels (get_bulbtype \<lparr>moduleName = Some ''ESP01_SHRGB3_01ABI'',
        whiteRange = Some [(''min'', 2700), (''max'', 5000)], fwVersion = None\<rparr>) = 1
   \<and> white_channels (get_bulbtype \<lparr>moduleName = Some ''ESP01_SHRGB3_01ABI'',
        whiteRange = Some [(''min'', 2700), (''max'', 5000)], fwVersion = None\<rparr>) \<noteq> 0"
  using no_rgbw_shrgb3
  by (simp add: get_bulbtype_def Let_def detect_white_channels upper_shrgb3)

text \<open>
  C4, amended. The result of \<^verbatim>\<open>detect_bulb_type\<close> always has \<open>white_channels = 1\<close>;
  after the post-processing of \<^verbatim>\<open>get_bulbtype\<close> it is 2 when the uppercased name
  contains \<open>RGBWW\<close> and 1 otherwise (also when it contains \<open>RGBW\<close>).
\<close>

theorem white_channels_detected:
  "white_channels (detect_bulb_type nm wr) = 1
   \<and> white_channels (get_bulbtype config)
     = (if str_contains ''RGBWW'' (upper (case moduleName config of None \<Rightarrow> [] | Some m \<Rightarrow> m))
        then 2 else 1)"
  by (simp add: get_bulbtype_def Let_def detect_white_channels)

text \<open>
  C5. For a module name that is a key of the known-modules table, the descriptor has that
  name, the class of the table, the default features of that class, and without
  \<^verbatim>\<open>white_range\<close> the Kelvin range of the table; with a \<^verbatim>\<open>white_range\<close> that has
  \<open>min\<close> and \<open>max\<close>, the descriptor is the one without \<^verbatim>\<open>white_range\<close> with only
  its Kelvin range replaced by these two.
\<close>

theorem known_module_detected:
  assumes "map_of KNOWN_MODULES nm = Some (cls, kelvin)"
  shows "name (detect_bulb_type nm wr) = nm
     \<and> bulb_type (detect_bulb_type nm wr) = cls
     \<and> features (detect_bulb_type nm wr) = features_for_class cls
     \<and> kelvin_range (detect_bulb_type nm None) = kelvin
     \<and> (map_of d ''min'' = Some mn \<and> map_of d ''max'' = Some mx \<longrightarrow>
          detect_bulb_type nm (Some d)
            = (detect_bulb_type nm None)\<lparr>kelvin_range := Some \<lparr>min_k = mn, max_k = mx\<rparr>\<rparr>)"
proof -
  have "d \<noteq> []" if "map_of d ''min'' = Some mn" using that by auto
  then show ?thesis
    using assms
    by (auto simp: detect_bulb_type_def Let_def mk_BulbType_def override_kelvin_def)
qed

theorem known_module_detected_witness:
  "map_of KNOWN_MODULES ''ESP01_SHRGB3_01ABI'' = Some (RGB, Some \<lparr>min_k = 2200, max_k = 6500\<rparr>)
   \<and> map_of [(''min'', 2700), (''max'', 5000)] ''min'' = Some (2700::int)
   \<and> map_of [(''min'', 2700), (''max'', 5000)] ''max'' = Some (5000::int)
   \<and> name (detect_bulb_type ''ESP01_SHRGB3_01ABI'' (Some [(''min'', 2700), (''max'', 5000)]))
     = ''ESP01_SHRGB3_01ABI''
   \<and> bulb_type (detect_bulb_type ''ESP01_SHRGB3_01ABI'' (Some [(''min'', 2700), (''max'', 5000)]))
     = RGB
   \<and> kelvin_range (detect_bulb_type ''ESP01_SHRGB3_01ABI'' None)
     = Some \<lparr>min_k = 2200, max_k = 6500\<rparr>
   \<and> detect_bulb_type ''ESP01_SHRGB3_01ABI'' (Some [(''min'', 2700), (''max'', 5000)])
     = (detect_bulb_type ''ESP01_SHRGB3_01ABI'' None)
         \<lparr>kelvin_range := Some \<lparr>min_k = 2700, max_k = 5000\<rparr>\<rparr>"
proof -
  have k: "map_of KNOWN_MODULES ''ESP01_SHRGB3_01ABI''
      = Some (RGB, Some \<lparr>min_k = 2200, max_k = 6500\<rparr>)"
    by (simp add: KNOWN_MODULES_def)
  have m: "map_of [(''min'', 2700), (''max'', 5000)] ''min'' = Some (2700::int)"
    "map_of [(''min'', 2700), (''max'', 5000)] ''max'' = Some (5000::int)"
    by simp_all
  from known_module_detected [OF k, of "Some [(''min'', 2700), (''max'', 5000)]"
      "[(''min'', 2700), (''max'', 5000)]" 2700 5000] k m
  show ?thesis by blast
qed


end
